theory Spec2Isabelle
  imports Complex_Main "HOL-Library.Word"
begin

section \<open>GridGenerator (src/lib/grid-generator.ts)\<close>

text \<open>
  JavaScript numbers are modelled as mathematical reals: the finite doubles, without
  rounding. The loop bound \<open>size\<close> is an integer-valued number, kept as an \<open>int\<close>.
\<close>

record LatLng =
  lat :: real
  lng :: real

record Viewport =
  northeast :: LatLng
  southwest :: LatLng

record GridPoint = LatLng +
  radius :: real

definition MAX_RADIUS :: real where
  "MAX_RADIUS = 50000"

definition calculateRadius :: "real \<Rightarrow> real \<Rightarrow> real \<Rightarrow> real" where
  "calculateRadius latSize lngSize baseLat =
     (let heightMeters = latSize * 111000;
          widthMeters = lngSize * 111000 * cos (baseLat * (pi / 180));
          diagonal = sqrt ((heightMeters * heightMeters) + (widthMeters * widthMeters))
      in min MAX_RADIUS (of_int \<lceil>(diagonal / 2) * 1.1\<rceil>))"

definition gridSizeClamp :: "real \<Rightarrow> int" where
  "gridSizeClamp gridSize = max 1 (min 20 \<lfloor>gridSize\<rfloor>)"

definition cellCenter :: "Viewport \<Rightarrow> real \<Rightarrow> real \<Rightarrow> real \<Rightarrow> nat \<Rightarrow> nat \<Rightarrow> GridPoint" where
  "cellCenter viewport cellLatSize cellLngSize radiusMeters row col =
     \<lparr> lat = lat (southwest viewport) + (of_nat row * cellLatSize) + (cellLatSize / 2),
       lng = lng (southwest viewport) + (of_nat col * cellLngSize) + (cellLngSize / 2),
       radius = radiusMeters \<rparr>"

text \<open>
  The two nested \<open>for\<close> loops push one point per (row, col), rows outermost; each loop is
  a fold over its index range that appends to \<open>points\<close>.
\<close>

definition generateGrid :: "Viewport \<Rightarrow> real \<Rightarrow> GridPoint list" where
  "generateGrid viewport gridSize =
     (let size = gridSizeClamp gridSize;
          latSpan = lat (northeast viewport) - lat (southwest viewport);
          lngSpan = lng (northeast viewport) - lng (southwest viewport);
          cellLatSize = latSpan / of_int size;
          cellLngSize = lngSpan / of_int size;
          radiusMeters = calculateRadius cellLatSize cellLngSize (lat (southwest viewport))
      in fold (\<lambda>row points.
                 fold (\<lambda>col points.
                         points @ [cellCenter viewport cellLatSize cellLngSize radiusMeters row col])
                      [0..<nat size] points)
              [0..<nat size] [])"

definition generate3x3Grid :: "Viewport \<Rightarrow> GridPoint list" where
  "generate3x3Grid viewport = generateGrid viewport 3"

text \<open>The same points as a comprehension, rows outermost; used to reason about the loops.\<close>

definition gridRows :: "Viewport \<Rightarrow> real \<Rightarrow> GridPoint list" where
  "gridRows viewport gridSize =
     (let n = nat (gridSizeClamp gridSize);
          cellLatSize = (lat (northeast viewport) - lat (southwest viewport)) / real n;
          cellLngSize = (lng (northeast viewport) - lng (southwest viewport)) / real n;
          radiusMeters = calculateRadius cellLatSize cellLngSize (lat (southwest viewport))
      in concat (map (\<lambda>row. map (cellCenter viewport cellLatSize cellLngSize radiusMeters row)
                                  [0..<n]) [0..<n]))"

section \<open>Errors and effects\<close>

text \<open>
  A thrown exception is a value: every operation that touches the shared cache takes the
  cache state and returns either an error or a result, together with the new state.
  \<open>bindE\<close> is \<open>await\<close> followed by the rest of the function, \<open>catchE\<close> is
  \<open>try/catch\<close> and \<open>finallyE\<close> is \<open>try/finally\<close> (an error of the finalizer replaces
  the outcome of the body, as in JavaScript).
\<close>

datatype error =
    RedisError
  | CircuitOpenError string
  | CapacityExceededError
  | ConfigurationError
  | UpstreamError nat
  | AbortError
  | NetworkError
  | MaxRetriesExceeded
  | InsufficientBalanceError int
  | UserCreateError
  | InvalidPageToken
  | CacheExpiredError
  | WorkError string

type_synonym ('a, 's) eff = "'s \<Rightarrow> (error + 'a) \<times> 's"

definition returnE :: "'a \<Rightarrow> ('a, 's) eff" where
  "returnE x = (\<lambda>s. (Inr x, s))"

definition throwE :: "error \<Rightarrow> ('a, 's) eff" where
  "throwE e = (\<lambda>s. (Inl e, s))"

definition bindE :: "('a, 's) eff \<Rightarrow> ('a \<Rightarrow> ('b, 's) eff) \<Rightarrow> ('b, 's) eff" where
  "bindE m f = (\<lambda>s. case m s of (Inl e, s') \<Rightarrow> (Inl e, s') | (Inr x, s') \<Rightarrow> f x s')"

definition catchE :: "('a, 's) eff \<Rightarrow> (error \<Rightarrow> ('a, 's) eff) \<Rightarrow> ('a, 's) eff" where
  "catchE m h = (\<lambda>s. case m s of (Inl e, s') \<Rightarrow> h e s' | (Inr x, s') \<Rightarrow> (Inr x, s'))"

definition finallyE :: "('a, 's) eff \<Rightarrow> ('b, 's) eff \<Rightarrow> ('a, 's) eff" where
  "finallyE m fin =
     (\<lambda>s. case m s of (res, s') \<Rightarrow>
             (case fin s' of (Inl e, s'') \<Rightarrow> (Inl e, s'') | (Inr _, s'') \<Rightarrow> (res, s'')))"

section \<open>Decimal strings\<close>

definition digit_char :: "nat \<Rightarrow> char" where
  "digit_char d = ''0123456789'' ! d"

fun show_nat :: "nat \<Rightarrow> string" where
  "show_nat n = (if n < 10 then [digit_char n] else show_nat (n div 10) @ [digit_char (n mod 10)])"

declare show_nat.simps [simp del]

definition show_int :: "int \<Rightarrow> string" where
  "show_int i = (if i < 0 then CHR ''-'' # show_nat (nat (- i)) else show_nat (nat i))"

definition read_nat :: "string \<Rightarrow> nat" where
  "read_nat s = foldl (\<lambda>a c. 10 * a + (of_char c - 48)) 0 s"

text \<open>
  A string is an integer for the cache exactly when it is the canonical decimal
  representation of one (digits only, no leading zeros, optional minus sign).
\<close>

definition parse_int :: "string \<Rightarrow> int option" where
  "parse_int s =
     (let n = (case s of [] \<Rightarrow> 0
                 | c # ds \<Rightarrow> if c = CHR ''-'' then - int (read_nat ds) else int (read_nat s))
      in if show_int n = s then Some n else None)"

section \<open>The shared cache (src/lib/redis, used through its commands)\<close>

text \<open>
  Modelled from the spec: the Redis server behind \<open>@/lib/redis\<close> is not part of the
  sources; it is modelled by the "shared cache contract" of the specification (get,
  set with expiry, conditional set, atomic increment and decrement, ordered sets, one atomic
  compare-and-delete script), with the semantics of the Redis commands the sources call.
  A key with an expiry is gone once the clock has reached the expiry; \<open>online = False\<close>
  makes every command fail, as a lost connection does. Time is in milliseconds.
\<close>

datatype rvalue = RString string | RZSet "(int \<times> string) list"

record rentry =
  rval :: rvalue
  rexpiry :: "nat option"

record redis =
  clock :: nat
  kv :: "string \<Rightarrow> rentry option"
  online :: bool

definition live :: "'z redis_scheme \<Rightarrow> string \<Rightarrow> rentry option" where
  "live r k =
     (case kv r k of
        None \<Rightarrow> None
      | Some e \<Rightarrow> (case rexpiry e of
                     None \<Rightarrow> Some e
                   | Some t \<Rightarrow> if t \<le> clock r then None else Some e))"

definition redis_get :: "string \<Rightarrow> (string option, 'z redis_scheme) eff" where
  "redis_get k r =
     (if \<not> online r then (Inl RedisError, r)
      else case live r k of
             None \<Rightarrow> (Inr None, r)
           | Some e \<Rightarrow> (case rval e of
                          RString v \<Rightarrow> (Inr (Some v), r)
                        | RZSet _ \<Rightarrow> (Inl RedisError, r)))"

text \<open>\<open>SET key value EX seconds\<close>; Redis rejects a non-positive expiry.\<close>

definition redis_set_ex :: "string \<Rightarrow> string \<Rightarrow> int \<Rightarrow> (unit, 'z redis_scheme) eff" where
  "redis_set_ex k v sec r =
     (if \<not> online r \<or> sec \<le> 0 then (Inl RedisError, r)
      else (Inr (),
            r\<lparr>kv := (kv r)(k \<mapsto> \<lparr>rval = RString v, rexpiry = Some (clock r + nat sec * 1000)\<rparr>)\<rparr>))"

text \<open>\<open>SET key value PX ms NX\<close>: \<open>True\<close> is the reply OK, \<open>False\<close> the nil reply.\<close>

definition redis_set_px_nx :: "string \<Rightarrow> string \<Rightarrow> int \<Rightarrow> (bool, 'z redis_scheme) eff" where
  "redis_set_px_nx k v ms r =
     (if \<not> online r \<or> ms \<le> 0 then (Inl RedisError, r)
      else case live r k of
             Some _ \<Rightarrow> (Inr False, r)
           | None \<Rightarrow> (Inr True,
                      r\<lparr>kv := (kv r)(k \<mapsto> \<lparr>rval = RString v, rexpiry = Some (clock r + nat ms)\<rparr>)\<rparr>))"

definition redis_incrby :: "string \<Rightarrow> int \<Rightarrow> (int, 'z redis_scheme) eff" where
  "redis_incrby k d r =
     (if \<not> online r then (Inl RedisError, r)
      else case live r k of
             None \<Rightarrow> (Inr d, r\<lparr>kv := (kv r)(k \<mapsto> \<lparr>rval = RString (show_int d), rexpiry = None\<rparr>)\<rparr>)
           | Some e \<Rightarrow>
               (case rval e of
                  RZSet _ \<Rightarrow> (Inl RedisError, r)
                | RString v \<Rightarrow>
                    (case parse_int v of
                       None \<Rightarrow> (Inl RedisError, r)
                     | Some n \<Rightarrow> (Inr (n + d),
                                  r\<lparr>kv := (kv r)(k \<mapsto> e\<lparr>rval := RString (show_int (n + d))\<rparr>)\<rparr>))))"

definition redis_incr :: "string \<Rightarrow> (int, 'z redis_scheme) eff" where
  "redis_incr k = redis_incrby k 1"

definition redis_decr :: "string \<Rightarrow> (int, 'z redis_scheme) eff" where
  "redis_decr k = redis_incrby k (- 1)"

definition redis_del :: "string \<Rightarrow> (int, 'z redis_scheme) eff" where
  "redis_del k r =
     (if \<not> online r then (Inl RedisError, r)
      else (Inr (case live r k of None \<Rightarrow> 0 | Some _ \<Rightarrow> 1), r\<lparr>kv := (kv r)(k := None)\<rparr>))"

text \<open>\<open>EXPIRE key seconds\<close>; a non-positive time deletes the key.\<close>

definition redis_expire :: "string \<Rightarrow> int \<Rightarrow> (int, 'z redis_scheme) eff" where
  "redis_expire k sec r =
     (if \<not> online r then (Inl RedisError, r)
      else case live r k of
             None \<Rightarrow> (Inr 0, r)
           | Some e \<Rightarrow>
               if sec \<le> 0 then (Inr 1, r\<lparr>kv := (kv r)(k := None)\<rparr>)
               else (Inr 1, r\<lparr>kv := (kv r)(k \<mapsto> e\<lparr>rexpiry := Some (clock r + nat sec * 1000)\<rparr>)\<rparr>))"

text \<open>
  The atomic batch of the sliding-window limiter (\<open>MULTI\<close> \<dots> \<open>EXEC\<close>):
  \<open>ZREMRANGEBYSCORE key 0 min\<close>, \<open>ZADD key now member\<close>, \<open>ZCARD key\<close>,
  \<open>EXPIRE key ttl\<close>. The reply holds the cardinality, or nothing when the key holds a
  string and the ordered-set commands fail.
\<close>

definition zadd :: "(int \<times> string) list \<Rightarrow> int \<Rightarrow> string \<Rightarrow> (int \<times> string) list" where
  "zadd z score member = filter (\<lambda>(s, m). m \<noteq> member) z @ [(score, member)]"

definition redis_exec_window ::
  "string \<Rightarrow> int \<Rightarrow> int \<Rightarrow> string \<Rightarrow> int \<Rightarrow> (int option, 'z redis_scheme) eff" where
  "redis_exec_window k minScore now member ttlSec r =
     (if \<not> online r then (Inl RedisError, r)
      else
        let zs = (case live r k of
                    None \<Rightarrow> Some []
                  | Some e \<Rightarrow> (case rval e of RZSet z \<Rightarrow> Some z | RString _ \<Rightarrow> None))
        in case zs of
             None \<Rightarrow> (case redis_expire k ttlSec r of (_, r') \<Rightarrow> (Inr None, r'))
           | Some z \<Rightarrow>
               let z1 = filter (\<lambda>(s, m). \<not> (0 \<le> s \<and> s \<le> minScore)) z;
                   z2 = zadd z1 now member
               in (Inr (Some (int (length z2))),
                   if ttlSec \<le> 0 then r\<lparr>kv := (kv r)(k := None)\<rparr>
                   else r\<lparr>kv := (kv r)(k \<mapsto> \<lparr>rval = RZSet z2,
                                                rexpiry = Some (clock r + nat ttlSec * 1000)\<rparr>)\<rparr>))"

section \<open>Traffic control (src/lib/traffic-control.ts)\<close>

text \<open>
  \<open>RELEASE_LOCK_LUA\<close>: one atomic script, \<open>GET key == token\<close> then \<open>DEL key\<close>, else 0.
  \<open>GET\<close> on a key of another type makes the script fail.
\<close>

definition RELEASE_LOCK_LUA :: "string \<Rightarrow> string \<Rightarrow> (int, 'z redis_scheme) eff" where
  "RELEASE_LOCK_LUA key token =
     bindE (redis_get key) (\<lambda>v.
       if v = Some token then redis_del key else returnE 0)"

text \<open>\<open>acquireLock\<close>; the fresh \<open>randomUUID()\<close> is the parameter \<open>token\<close>.\<close>

definition acquireLock :: "string \<Rightarrow> string \<Rightarrow> int \<Rightarrow> (string option, 'z redis_scheme) eff" where
  "acquireLock token key ttlMs =
     bindE (redis_set_px_nx key token ttlMs) (\<lambda>result.
       if result then returnE (Some token) else returnE None)"

text \<open>
  \<open>releaseLock\<close> over any store: \<open>eval\<close> is the call \<open>redis.eval(script, 1, key, token)\<close>,
  whatever it does.
\<close>

definition releaseLock_on ::
  "(string \<Rightarrow> string \<Rightarrow> (int, 's) eff) \<Rightarrow> string \<Rightarrow> string \<Rightarrow> (unit, 's) eff" where
  "releaseLock_on eval key token =
     catchE (bindE (eval key token) (\<lambda>_. returnE ()))
            (\<lambda>_. returnE ())"

definition releaseLock :: "string \<Rightarrow> string \<Rightarrow> (unit, 'z redis_scheme) eff" where
  "releaseLock = releaseLock_on RELEASE_LOCK_LUA"

record cb_config =
  failureThreshold :: "int option"
  resetTimeoutSec :: "int option"

definition cb_stateKey :: "string \<Rightarrow> string" where
  "cb_stateKey serviceName = ''cb:'' @ serviceName @ '':state''"

definition cb_failureCountKey :: "string \<Rightarrow> string" where
  "cb_failureCountKey serviceName = ''cb:'' @ serviceName @ '':failures''"

definition actualFailureThreshold :: "cb_config \<Rightarrow> int" where
  "actualFailureThreshold config = (case failureThreshold config of None \<Rightarrow> 50 | Some n \<Rightarrow> n)"

definition actualResetTimeoutSec :: "cb_config \<Rightarrow> int" where
  "actualResetTimeoutSec config = (case resetTimeoutSec config of None \<Rightarrow> 60 | Some n \<Rightarrow> n)"

text \<open>The \<open>catch\<close> block of \<open>withCircuitBreaker\<close>: record the failure, rethrow.\<close>

definition cb_onFailure :: "string \<Rightarrow> cb_config \<Rightarrow> error \<Rightarrow> ('a, 'z redis_scheme) eff" where
  "cb_onFailure serviceName config err =
     (let stateKey = cb_stateKey serviceName;
          failureCountKey = cb_failureCountKey serviceName
      in bindE (redis_incr failureCountKey) (\<lambda>failures.
           bindE (if failures \<ge> actualFailureThreshold config
                  then bindE (redis_set_ex stateKey ''OPEN'' (actualResetTimeoutSec config)) (\<lambda>_.
                         bindE (redis_del failureCountKey) (\<lambda>_. returnE ()))
                  else returnE ())
                 (\<lambda>_. throwE err)))"

definition withCircuitBreaker ::
  "string \<Rightarrow> cb_config \<Rightarrow> ('a, 'z redis_scheme) eff \<Rightarrow> ('a, 'z redis_scheme) eff" where
  "withCircuitBreaker serviceName config work =
     (let stateKey = cb_stateKey serviceName
      in bindE (redis_get stateKey) (\<lambda>state.
           if state = Some ''OPEN'' then throwE (CircuitOpenError serviceName)
           else catchE work (cb_onFailure serviceName config)))"

text \<open>
  A JavaScript number as far as the limiters look at it: \<open>Number.isFinite\<close> and the
  comparisons with a count.
\<close>

datatype jsnum = Finite real | PosInfinity | NegInfinity | NaN

fun isFinite :: "jsnum \<Rightarrow> bool" where
  "isFinite (Finite _) = True"
| "isFinite _ = False"

fun js_le :: "jsnum \<Rightarrow> jsnum \<Rightarrow> bool" where
  "js_le NaN _ = False"
| "js_le _ NaN = False"
| "js_le (Finite a) (Finite b) = (a \<le> b)"
| "js_le NegInfinity _ = True"
| "js_le _ PosInfinity = True"
| "js_le _ _ = False"

fun js_gt :: "jsnum \<Rightarrow> jsnum \<Rightarrow> bool" where
  "js_gt NaN _ = False"
| "js_gt _ NaN = False"
| "js_gt (Finite a) (Finite b) = (a > b)"
| "js_gt PosInfinity PosInfinity = False"
| "js_gt PosInfinity _ = True"
| "js_gt _ NegInfinity = True"
| "js_gt _ _ = False"

record rate_result =
  allowed :: bool

definition rateLimitFixedWindow :: "string \<Rightarrow> jsnum \<Rightarrow> int \<Rightarrow> (rate_result, 'z redis_scheme) eff" where
  "rateLimitFixedWindow key limit windowSec =
     (if \<not> isFinite limit \<or> js_le limit (Finite 0) then returnE \<lparr>allowed = True\<rparr>
      else bindE (redis_incr key) (\<lambda>count.
             bindE (if count = 1 then redis_expire key windowSec else returnE 0) (\<lambda>_.
               returnE \<lparr>allowed = js_le (Finite (of_int count)) limit\<rparr>)))"

text \<open>
  \<open>rateLimitSlidingWindow\<close>; \<open>Date.now()\<close> is the clock of the cache state and the
  \<open>Math.random()\<close> tag of the member is the parameter \<open>tag\<close>.
\<close>

definition rateLimitSlidingWindow ::
  "string \<Rightarrow> string \<Rightarrow> jsnum \<Rightarrow> int \<Rightarrow> (rate_result, 'z redis_scheme) eff" where
  "rateLimitSlidingWindow tag key limit windowSec =
     (if \<not> isFinite limit \<or> js_le limit (Finite 0) then returnE \<lparr>allowed = True\<rparr>
      else (\<lambda>r.
        let now = int (clock r);
            windowMs = windowSec * 1000;
            minScore = now - windowMs
        in bindE (redis_exec_window key minScore now (show_int now @ ''-'' @ tag) (windowSec + 1))
                 (\<lambda>count. case count of
                              None \<Rightarrow> returnE \<lparr>allowed = False\<rparr>
                            | Some c \<Rightarrow> returnE \<lparr>allowed = js_le (Finite (of_int c)) limit\<rparr>)
                 r))"

definition withInflightLimiter ::
  "string \<Rightarrow> jsnum \<Rightarrow> int \<Rightarrow> ('a, 'z redis_scheme) eff \<Rightarrow> ('a, 'z redis_scheme) eff" where
  "withInflightLimiter key maxConcurrent ttlSec work =
     (if \<not> isFinite maxConcurrent \<or> js_le maxConcurrent (Finite 0) then work
      else bindE (redis_incr key) (\<lambda>current.
             bindE (if current = 1 then redis_expire key ttlSec else returnE 0) (\<lambda>_.
               if js_gt (Finite (of_int current)) maxConcurrent
               then bindE (redis_decr key) (\<lambda>_. throwE CapacityExceededError)
               else finallyE work (redis_decr key))))"

text \<open>
  What \<open>INCR\<close> finds under a counter key: 0 for a missing or expired key, the stored
  integer otherwise, nothing when the stored value is not an integer.
\<close>

definition counter_value :: "'z redis_scheme \<Rightarrow> string \<Rightarrow> int option" where
  "counter_value r k =
     (case live r k of
        None \<Rightarrow> Some 0
      | Some e \<Rightarrow> (case rval e of RString v \<Rightarrow> parse_int v | RZSet _ \<Rightarrow> None))"

section \<open>Places gateway (src/lib/gateway/google-places.ts)\<close>

text \<open>
  A place after \<open>transformPlace\<close>, with the viewport as the provider sends it (corner
  objects \<open>northeast\<close>/\<open>southwest\<close> or \<open>high\<close>/\<open>low\<close>, each with optional
  \<open>latitude\<close> and \<open>longitude\<close>).
\<close>

record RawLatLng =
  latitude :: "real option"
  longitude :: "real option"

record RawViewport =
  raw_northeast :: "RawLatLng option"
  raw_high :: "RawLatLng option"
  raw_southwest :: "RawLatLng option"
  raw_low :: "RawLatLng option"

record place =
  place_id :: string
  name :: string
  website :: "string option"
  place_viewport :: "RawViewport option"

record GatewayResponse =
  places :: "place list"
  nextPageToken :: "string option"

record search_options =
  pageToken :: "string option"
  pageSize :: "nat option"
  locationBias :: "GridPoint option"

text \<open>The body of the POST request; \<open>pageSize\<close> is \<open>options.pageSize || 20\<close>.\<close>

record request =
  textQuery :: string
  req_pageSize :: nat
  req_pageToken :: "string option"
  req_locationBias :: "GridPoint option"


text \<open>
  What one attempt ends in: a response with its status and decoded body (the places
  already through \<open>transformPlace\<close>), the abort of the timeout, or any other failure of
  the request or of reading its body.
\<close>

datatype fetch_outcome =
    Response nat "place list" "string option"
  | Aborted
  | FetchFailed

text \<open>
  The observable trace of the gateway: the requests sent (attempt number, credential,
  body, outcome), the sleeps, and the calls received by a recording stand-in for
  \<open>searchText\<close>.
\<close>

datatype gw_event =
    Fetch nat "string option" request fetch_outcome
  | Sleep nat
  | Called string search_options

record gateway = redis +
  currentKeyIndex :: nat
  log :: "gw_event list"


definition sleep :: "nat \<Rightarrow> (unit, 'z gateway_scheme) eff" where
  "sleep ms g = (Inr (), g\<lparr>clock := clock g + ms, log := log g @ [Sleep ms]\<rparr>)"

















text \<open>Two states that agree on the gateway's own fields.\<close>

definition same_gw :: "'z gateway_scheme \<Rightarrow> 'z gateway_scheme \<Rightarrow> bool" where
  "same_gw g g' = (log g' = log g \<and> currentKeyIndex g' = currentKeyIndex g)"

subsection \<open>scanCity\<close>

text \<open>
  \<open>scanCity\<close> is written over the search function it calls (\<open>this.searchText\<close>).
  \<open>Promise.all\<close> over the grid points is modelled by running the sectors one after the
  other: what the sectors exchange with the outside is in the answers of the search
  function, whatever the interleaving.
\<close>

type_synonym 'z search_fn =
  "string \<Rightarrow> search_options \<Rightarrow> (GatewayResponse, 'z gateway_scheme) eff"

record scan_options =
  opt_gridSize :: "real option"
  opt_maxPagesPerGrid :: "nat option"

text \<open>Truthiness of an optional string: \<open>undefined\<close> and the empty string are falsy.\<close>

definition js_truthy :: "string option \<Rightarrow> bool" where
  "js_truthy t = (case t of None \<Rightarrow> False | Some s \<Rightarrow> s \<noteq> [])"

definition sector_options :: "GridPoint \<Rightarrow> string option \<Rightarrow> search_options" where
  "sector_options point token = \<lparr>pageToken = token, pageSize = None, locationBias = Some point\<rparr>"

text \<open>The \<open>do \<dots> while (nextPageToken && pageCount < MAX_PAGES_PER_GRID)\<close> loop of one sector.\<close>

function sector_pages ::
  "'z search_fn \<Rightarrow> string \<Rightarrow> GridPoint \<Rightarrow> nat \<Rightarrow> place list \<Rightarrow> string option \<Rightarrow> nat \<Rightarrow>
   (place list, 'z gateway_scheme) eff" where
  "sector_pages search query point MAX_PAGES allGridPlaces token pageCount g =
     (case (if pageCount > 0 then sleep 2000 g else (Inr (), g)) of
        (_, g1) \<Rightarrow>
          (case search query (sector_options point token) g1 of
             (Inl e, g2) \<Rightarrow> (Inl e, g2)
           | (Inr response, g2) \<Rightarrow>
               if js_truthy (nextPageToken response) \<and> pageCount + 1 < MAX_PAGES
               then sector_pages search query point MAX_PAGES
                      (allGridPlaces @ places response) (nextPageToken response) (pageCount + 1) g2
               else (Inr (allGridPlaces @ places response), g2)))"
  by pat_completeness auto
termination
  by (relation "measure (\<lambda>(search, query, point, MAX_PAGES, allGridPlaces, token, pageCount, g).
                           MAX_PAGES - pageCount)")
     auto

declare sector_pages.simps [simp del]

text \<open>One sector: the loop inside \<open>try\<close>, an empty array from \<open>catch\<close>.\<close>

definition scan_sector ::
  "'z search_fn \<Rightarrow> string \<Rightarrow> nat \<Rightarrow> GridPoint \<Rightarrow> (place list, 'z gateway_scheme) eff" where
  "scan_sector search query MAX_PAGES point =
     catchE (sector_pages search query point MAX_PAGES [] None 0) (\<lambda>e. returnE [])"

fun scan_sectors ::
  "'z search_fn \<Rightarrow> string \<Rightarrow> nat \<Rightarrow> GridPoint list \<Rightarrow> (place list list, 'z gateway_scheme) eff" where
  "scan_sectors search query MAX_PAGES [] = returnE []"
| "scan_sectors search query MAX_PAGES (point # points) =
     bindE (scan_sector search query MAX_PAGES point) (\<lambda>r.
       bindE (scan_sectors search query MAX_PAGES points) (\<lambda>rs. returnE (r # rs)))"

definition scan_gridPoints :: "Viewport \<Rightarrow> scan_options \<Rightarrow> GridPoint list" where
  "scan_gridPoints viewport options =
     (case opt_gridSize options of
        None \<Rightarrow> generate3x3Grid viewport
      | Some n \<Rightarrow> if n = 0 then generate3x3Grid viewport else generateGrid viewport n)"

definition MAX_PAGES_PER_GRID :: "scan_options \<Rightarrow> nat" where
  "MAX_PAGES_PER_GRID options =
     (case opt_maxPagesPerGrid options of None \<Rightarrow> 3 | Some n \<Rightarrow> if n = 0 then 3 else n)"

definition scanCity ::
  "'z search_fn \<Rightarrow> string \<Rightarrow> Viewport \<Rightarrow> scan_options \<Rightarrow> (place list, 'z gateway_scheme) eff" where
  "scanCity search query viewport options =
     bindE (scan_sectors search query (MAX_PAGES_PER_GRID options) (scan_gridPoints viewport options))
           (\<lambda>results. returnE (concat results))"







section \<open>Search orchestration (src/app/actions/get-enriched-places.ts)\<close>

subsection \<open>JavaScript helpers\<close>

text \<open>\<open>Array.prototype.slice(start, end)\<close>, negative indices counting from the end.\<close>

definition js_slice :: "'a list \<Rightarrow> int \<Rightarrow> int \<Rightarrow> 'a list" where
  "js_slice xs start end =
     (let len = int (length xs);
          k = (if start < 0 then max (len + start) 0 else min start len);
          final = (if end < 0 then max (len + end) 0 else min end len)
      in take (nat (final - k)) (drop (nat k) xs))"

definition startsWith :: "string \<Rightarrow> string \<Rightarrow> bool" where
  "startsWith s p = (take (length p) s = p)"

definition is_space :: "char \<Rightarrow> bool" where
  "is_space c = (c \<in> set [CHR '' '', CHR 0x09, CHR 0x0A, CHR 0x0B, CHR 0x0C, CHR 0x0D])"

definition toLowerCase_char :: "char \<Rightarrow> char" where
  "toLowerCase_char c =
     (case map_of (zip ''ABCDEFGHIJKLMNOPQRSTUVWXYZ'' ''abcdefghijklmnopqrstuvwxyz'') c of
        Some l \<Rightarrow> l
      | None \<Rightarrow> c)"

text \<open>\<open>value.trim().toLowerCase()\<close>, on ASCII text.\<close>

definition normalizeInput :: "string \<Rightarrow> string" where
  "normalizeInput v =
     map toLowerCase_char (rev (dropWhile is_space (rev (dropWhile is_space v))))"

text \<open>\<open>a || b || 0\<close> on optional numbers: the first that is present and not zero.\<close>

definition js_or_num :: "real option \<Rightarrow> real option \<Rightarrow> real" where
  "js_or_num a b =
     (case a of
        Some x \<Rightarrow> if x \<noteq> 0 then x else (case b of Some y \<Rightarrow> y | None \<Rightarrow> 0)
      | None \<Rightarrow> (case b of Some y \<Rightarrow> y | None \<Rightarrow> 0))"

subsection \<open>The record store and the state of a request\<close>

datatype SubscriptionTier = FREE | STARTER | PRO | BUSINESS

record user =
  credits :: int
  subscriptionTier :: SubscriptionTier

record credit_transaction =
  ct_userId :: string
  ct_amount :: int
  ct_type :: string
  ct_city :: string
  ct_keyword :: string
  ct_resultCount :: "nat option"
  ct_pageToken :: "string option"

record search_history =
  sh_userId :: string
  sh_city :: string
  sh_keyword :: string
  sh_resultCount :: nat

record search_result =
  res_places :: "place list"
  res_nextPageToken :: "string option"
  res_jobId :: string

text \<open>
  The record store (Prisma) as far as the search touches it: users with their credits,
  the append-only credit ledger, the search history, the place table keyed by
  \<open>googleId\<close>, the durable search cache; and the batches published on the job channels.
  The lead rows and the enrichment queue fed by \<open>persistAndPublish\<close> are left out: no
  result of the search depends on them. Record-store calls succeed; the cache may be
  offline.
\<close>

record app = gateway +
  users :: "string \<Rightarrow> user option"
  creditTransactions :: "credit_transaction list"
  searchHistory :: "search_history list"
  placeTable :: "place list"
  published :: "(string \<times> place list) list"
  searchCache :: "string \<Rightarrow> search_result option"

text \<open>
  What the environment of a call provides: the plan table (\<open>@/lib/plans\<close> is not among
  the sources; only \<open>resultsPerSearch\<close> is read), the environment variables as optional
  integers, the JSON encodings of the cached values, the fresh job id, the gateway's
  \<open>searchText\<close>, and \<open>other_requests\<close>: what concurrent requests do to the shared
  state while this call awaits the gateway, between its balance check and its billing
  transaction (the identity when the call runs alone).
\<close>

record 'z search_env =
  resultsPerSearch :: "SubscriptionTier \<Rightarrow> nat"
  DEEP_SEARCH_MAX_PAGES :: "int option"
  DEEP_SEARCH_PAGE_SIZE :: "int option"
  DEEP_SEARCH_BUSINESS_GRID_SIZE :: "int option"
  DEEP_SEARCH_BUSINESS_MAX_PAGES_PER_GRID :: "int option"
  stringify_ids :: "string list \<Rightarrow> string"
  parse_ids :: "string \<Rightarrow> string list"
  stringify_listData :: "place list \<Rightarrow> int \<Rightarrow> string"
  parse_listData :: "string \<Rightarrow> place list"
  stringify_result :: "search_result \<Rightarrow> string"
  randomUUID :: string
  gw_searchText :: "string \<Rightarrow> search_options \<Rightarrow> (GatewayResponse, 'z app_scheme) eff"
  other_requests :: "'z app_scheme \<Rightarrow> 'z app_scheme"

definition LONG_TERM_TTL :: int where
  "LONG_TERM_TTL = 2592000"

definition default_options :: search_options where
  "default_options = \<lparr>pageToken = None, pageSize = None, locationBias = None\<rparr>"

subsection \<open>persistAndPublish\<close>

definition upsert_place :: "place \<Rightarrow> place list \<Rightarrow> place list" where
  "upsert_place p table =
     (if \<exists>q\<in>set table. place_id q = place_id p
      then map (\<lambda>q. if place_id q = place_id p then p else q) table
      else table @ [p])"

text \<open>The saved row as returned to the caller: \<open>website: place.website || null\<close>.\<close>

definition saved_place :: "place \<Rightarrow> place" where
  "saved_place p = p\<lparr>website := (case website p of Some w \<Rightarrow> if w = [] then None else Some w
                                                   | None \<Rightarrow> None)\<rparr>"

definition redis_publish :: "string \<Rightarrow> place list \<Rightarrow> (unit, 'z app_scheme) eff" where
  "redis_publish jobId batch s =
     (if \<not> online s then (Inl RedisError, s)
      else (Inr (), s\<lparr>published := published s @ [(jobId, batch)]\<rparr>))"

definition persistAndPublish :: "string \<Rightarrow> place list \<Rightarrow> (place list, 'z app_scheme) eff" where
  "persistAndPublish effectiveJobId placesToSave =
     (if length placesToSave = 0 then returnE []
      else (\<lambda>s.
        let enrichedBatch = map saved_place placesToSave;
            s1 = s\<lparr>placeTable := fold upsert_place enrichedBatch (placeTable s)\<rparr>
        in bindE (redis_publish effectiveJobId enrichedBatch) (\<lambda>_. returnE enrichedBatch) s1))"

subsection \<open>Cost and plan-derived limits\<close>

definition is_deep_token :: "string option \<Rightarrow> bool" where
  "is_deep_token initialPageToken =
     (case initialPageToken of None \<Rightarrow> False | Some t \<Rightarrow> t \<noteq> [] \<and> startsWith t ''deep:'')"

definition requiredCredits :: "string option \<Rightarrow> bool \<Rightarrow> int" where
  "requiredCredits initialPageToken deepSearch =
     (if \<not> js_truthy initialPageToken \<and> deepSearch then 10
      else if is_deep_token initialPageToken then 1
      else 1)"

definition isPaidPagination :: "string option \<Rightarrow> bool \<Rightarrow> bool" where
  "isPaidPagination initialPageToken deepSearch =
     (if \<not> js_truthy initialPageToken \<and> deepSearch then False
      else is_deep_token initialPageToken)"

definition DEEP_PAGE_SIZE :: "'z search_env \<Rightarrow> int" where
  "DEEP_PAGE_SIZE env =
     (let configuredDeepPageSize = (case DEEP_SEARCH_PAGE_SIZE env of None \<Rightarrow> 60 | Some n \<Rightarrow> n)
      in max 10 (min configuredDeepPageSize 500))"

definition MAX_DEEP_PAGES :: "'z search_env \<Rightarrow> int" where
  "MAX_DEEP_PAGES env = (case DEEP_SEARCH_MAX_PAGES env of None \<Rightarrow> 200 | Some n \<Rightarrow> n)"

definition remainingCredits :: "user \<Rightarrow> int \<Rightarrow> int" where
  "remainingCredits u required = max 0 (credits u - required)"

definition baseGridSizeByTier :: "'z search_env \<Rightarrow> SubscriptionTier \<Rightarrow> int" where
  "baseGridSizeByTier env tier =
     (let businessGridOverride = (case DEEP_SEARCH_BUSINESS_GRID_SIZE env of None \<Rightarrow> 0 | Some n \<Rightarrow> n)
      in case tier of
           FREE \<Rightarrow> 3 | STARTER \<Rightarrow> 4 | PRO \<Rightarrow> 5
         | BUSINESS \<Rightarrow> if businessGridOverride > 0 then businessGridOverride else 10)"

definition basePagesByTier :: "'z search_env \<Rightarrow> SubscriptionTier \<Rightarrow> int" where
  "basePagesByTier env tier =
     (let businessPagesOverride =
            (case DEEP_SEARCH_BUSINESS_MAX_PAGES_PER_GRID env of None \<Rightarrow> 0 | Some n \<Rightarrow> n)
      in case tier of
           FREE \<Rightarrow> 2 | STARTER \<Rightarrow> 3 | PRO \<Rightarrow> 4
         | BUSINESS \<Rightarrow> if businessPagesOverride > 0 then businessPagesOverride else 8)"

definition creditBoost :: "int \<Rightarrow> int" where
  "creditBoost remaining = (if remaining \<ge> 200 then 2 else if remaining \<ge> 50 then 1 else 0)"

definition gridSize_of :: "'z search_env \<Rightarrow> SubscriptionTier \<Rightarrow> int \<Rightarrow> int" where
  "gridSize_of env tier remaining = min (baseGridSizeByTier env tier + creditBoost remaining) 12"

definition maxPagesPerGrid_of :: "'z search_env \<Rightarrow> SubscriptionTier \<Rightarrow> int \<Rightarrow> int" where
  "maxPagesPerGrid_of env tier remaining = min (basePagesByTier env tier + creditBoost remaining) 10"

subsection \<open>Standard search\<close>

definition MAX_FETCHES :: "nat \<Rightarrow> nat" where
  "MAX_FETCHES STANDARD_PAGE_SIZE = (STANDARD_PAGE_SIZE + 19) div 20 + 1"

text \<open>
  The \<open>while (fetchCount < MAX_FETCHES && allPlaces.length < STANDARD_PAGE_SIZE)\<close> loop;
  it returns \<open>allPlaces\<close>, \<open>enrichedPlaces\<close> and \<open>currentToken\<close> as the loop leaves them.
\<close>

function standard_loop ::
  "'z search_env \<Rightarrow> string \<Rightarrow> string \<Rightarrow> nat \<Rightarrow> nat \<Rightarrow> place list \<Rightarrow> place list \<Rightarrow> string option \<Rightarrow>
   (place list \<times> place list \<times> string option, 'z app_scheme) eff" where
  "standard_loop env effectiveJobId query STANDARD_PAGE_SIZE fetchCount allPlaces enrichedPlaces
       currentToken s =
     (if fetchCount < MAX_FETCHES STANDARD_PAGE_SIZE \<and> length allPlaces < STANDARD_PAGE_SIZE then
        (case gw_searchText env query (default_options\<lparr>pageToken := currentToken\<rparr>) s of
           (Inl e, s1) \<Rightarrow> (Inl e, s1)
         | (Inr result, s1) \<Rightarrow>
             (case (if length (places result) > 0
                    then persistAndPublish effectiveJobId (places result) s1
                    else (Inr [], s1)) of
                (Inl e, s2) \<Rightarrow> (Inl e, s2)
              | (Inr batch, s2) \<Rightarrow>
                  if \<not> js_truthy (nextPageToken result)
                  then (Inr (allPlaces @ places result, enrichedPlaces @ batch,
                             nextPageToken result), s2)
                  else standard_loop env effectiveJobId query STANDARD_PAGE_SIZE (fetchCount + 1)
                         (allPlaces @ places result) (enrichedPlaces @ batch)
                         (nextPageToken result) s2))
      else (Inr (allPlaces, enrichedPlaces, currentToken), s))"
  by pat_completeness auto
termination
  by (relation "measure (\<lambda>(env, effectiveJobId, query, STANDARD_PAGE_SIZE, fetchCount, allPlaces,
                            enrichedPlaces, currentToken, s).
                           MAX_FETCHES STANDARD_PAGE_SIZE - fetchCount)")
     auto

declare standard_loop.simps [simp del]

text \<open>
  The continuation policy as the specification words it, the plan cap being reached when
  as many results as the cap were accumulated.
\<close>

definition claimed_nextToken :: "nat \<Rightarrow> place list \<Rightarrow> string option \<Rightarrow> string option" where
  "claimed_nextToken STANDARD_PAGE_SIZE allPlaces currentToken =
     (if \<not> js_truthy currentToken \<and> length allPlaces < 60 then None
      else if \<not> js_truthy currentToken \<and> length allPlaces \<ge> 60 then Some ''google_limit_reached''
      else if length allPlaces \<ge> STANDARD_PAGE_SIZE then Some ''plan_limit_reached''
      else currentToken)"

text \<open>The continuation policy of the standard search.\<close>

definition standard_nextToken :: "nat \<Rightarrow> place list \<Rightarrow> string option \<Rightarrow> string option" where
  "standard_nextToken STANDARD_PAGE_SIZE allPlaces currentToken =
     (let limitedPlaces = js_slice allPlaces 0 (int STANDARD_PAGE_SIZE)
      in if \<not> js_truthy currentToken
         then (if length allPlaces \<ge> 60 then Some ''google_limit_reached'' else None)
         else (if length limitedPlaces < length allPlaces then Some ''plan_limit_reached''
               else currentToken))"

text \<open>
  The standard branch: \<open>limitedPlaces\<close>, \<open>nextToken\<close> and the re-sliced
  \<open>enrichedPlaces\<close>.
\<close>

definition standard_search ::
  "'z search_env \<Rightarrow> string \<Rightarrow> string \<Rightarrow> string \<Rightarrow> nat \<Rightarrow>
   (place list \<times> string option \<times> place list, 'z app_scheme) eff" where
  "standard_search env effectiveJobId city keyword STANDARD_PAGE_SIZE =
     bindE (standard_loop env effectiveJobId (keyword @ '' in '' @ city) STANDARD_PAGE_SIZE
              0 [] [] None)
       (\<lambda>(allPlaces, enrichedPlaces, currentToken).
          returnE (js_slice allPlaces 0 (int STANDARD_PAGE_SIZE),
                   standard_nextToken STANDARD_PAGE_SIZE allPlaces currentToken,
                   js_slice enrichedPlaces 0 (int STANDARD_PAGE_SIZE)))"

subsection \<open>Deep search\<close>

definition listCacheKey :: "string \<Rightarrow> string \<Rightarrow> string" where
  "listCacheKey normalizedCity normalizedKeyword =
     ''search:list:'' @ normalizedCity @ '':'' @ normalizedKeyword"

definition listDataCacheKey :: "string \<Rightarrow> string \<Rightarrow> string" where
  "listDataCacheKey normalizedCity normalizedKeyword =
     ''search:list:data:'' @ normalizedCity @ '':'' @ normalizedKeyword"

definition cacheKey :: "string \<Rightarrow> string \<Rightarrow> string option \<Rightarrow> string" where
  "cacheKey normalizedCity normalizedKeyword initialPageToken =
     ''search:'' @ normalizedCity @ '':'' @ normalizedKeyword @ '':'' @
       (if js_truthy initialPageToken then the initialPageToken else ''p1'')"

text \<open>The viewport of the city place, either corner naming, missing numbers read as 0.\<close>

definition cityViewport_of :: "RawViewport \<Rightarrow> Viewport" where
  "cityViewport_of v =
     \<lparr> northeast =
         \<lparr> lat = js_or_num (Option.bind (raw_northeast v) latitude) (Option.bind (raw_high v) latitude),
           lng = js_or_num (Option.bind (raw_northeast v) longitude) (Option.bind (raw_high v) longitude) \<rparr>,
       southwest =
         \<lparr> lat = js_or_num (Option.bind (raw_southwest v) latitude) (Option.bind (raw_low v) latitude),
           lng = js_or_num (Option.bind (raw_southwest v) longitude) (Option.bind (raw_low v) longitude) \<rparr> \<rparr>"

text \<open>Deduplication by \<open>place_id\<close>: the first occurrence stays.\<close>

fun dedup_by_id :: "string list \<Rightarrow> place list \<Rightarrow> place list" where
  "dedup_by_id seen [] = []"
| "dedup_by_id seen (p # ps) =
     (if place_id p \<in> set seen then dedup_by_id seen ps
      else p # dedup_by_id (place_id p # seen) ps)"

text \<open>The slim projection stored for pagination: the viewport is not kept.\<close>

definition slim_place :: "place \<Rightarrow> place" where
  "slim_place p = p\<lparr>place_viewport := None\<rparr>"

definition maxResultsByCredits :: "'z search_env \<Rightarrow> int \<Rightarrow> int" where
  "maxResultsByCredits env remaining =
     (let maxPagesByCredits = min (MAX_DEEP_PAGES env) (max 1 (1 + remaining))
      in maxPagesByCredits * DEEP_PAGE_SIZE env)"

text \<open>
  The first part of a new deep search: the viewport lookup, then the fallback query
  (persisted at once) or the grid scan with deduplication. It returns \<open>allPlaces\<close> and the
  \<open>enrichedPlaces\<close> collected so far.
\<close>

definition deep_collect ::
  "'z search_env \<Rightarrow> string \<Rightarrow> string \<Rightarrow> string \<Rightarrow> int \<Rightarrow> int \<Rightarrow>
   (place list \<times> place list, 'z app_scheme) eff" where
  "deep_collect env effectiveJobId city keyword gridSize maxPagesPerGrid =
     bindE (gw_searchText env city (default_options\<lparr>pageSize := Some 1\<rparr>)) (\<lambda>cityResult.
       let cityPlace = (case places cityResult of [] \<Rightarrow> None | p # _ \<Rightarrow> Some p);
           cityViewport = map_option cityViewport_of (Option.bind cityPlace place_viewport)
       in case cityViewport of
            None \<Rightarrow>
              bindE (gw_searchText env (keyword @ '' in '' @ city) default_options) (\<lambda>result.
                bindE (persistAndPublish effectiveJobId (places result)) (\<lambda>persistedBatch.
                  returnE (places result, persistedBatch)))
          | Some vp \<Rightarrow>
              if lat (northeast vp) = 0 \<and> lng (northeast vp) = 0 then
                bindE (gw_searchText env (keyword @ '' in '' @ city) default_options) (\<lambda>result.
                  bindE (persistAndPublish effectiveJobId (places result)) (\<lambda>persistedBatch.
                    returnE (places result, persistedBatch)))
              else
                bindE (scanCity (gw_searchText env) keyword vp
                         \<lparr>opt_gridSize = Some (of_int gridSize),
                          opt_maxPagesPerGrid = Some (nat maxPagesPerGrid)\<rparr>)
                      (\<lambda>gridResults. returnE (dedup_by_id [] gridResults, [])))"

text \<open>
  The second part: the credit-aware cap, the two cache entries, the first page and its
  token. It returns \<open>limitedPlaces\<close>, \<open>nextToken\<close> and \<open>enrichedPlaces\<close>.
\<close>

definition deep_store ::
  "'z search_env \<Rightarrow> string \<Rightarrow> string \<Rightarrow> string \<Rightarrow> int \<Rightarrow> place list \<Rightarrow> place list \<Rightarrow>
   (place list \<times> string option \<times> place list, 'z app_scheme) eff" where
  "deep_store env effectiveJobId normalizedCity normalizedKeyword remaining collected enriched0 =
     (let allPlaces = (if int (length collected) > maxResultsByCredits env remaining
                       then js_slice collected 0 (maxResultsByCredits env remaining)
                       else collected);
          allIds = map place_id allPlaces;
          slimPlaces = map slim_place allPlaces
      in bindE (redis_set_ex (listCacheKey normalizedCity normalizedKeyword)
                  (stringify_ids env allIds) LONG_TERM_TTL) (\<lambda>_.
         bindE (redis_set_ex (listDataCacheKey normalizedCity normalizedKeyword)
                  (stringify_listData env slimPlaces (DEEP_PAGE_SIZE env)) LONG_TERM_TTL) (\<lambda>_.
           let limitedPlaces = js_slice allPlaces 0 (DEEP_PAGE_SIZE env);
               nextToken = (if int (length allPlaces) > DEEP_PAGE_SIZE env
                            then Some (''deep:'' @ show_int (DEEP_PAGE_SIZE env)) else None)
           in bindE (if length enriched0 = 0 then persistAndPublish effectiveJobId limitedPlaces
                     else returnE enriched0)
                    (\<lambda>enrichedPlaces. returnE (limitedPlaces, nextToken, enrichedPlaces)))))"

definition deep_search ::
  "'z search_env \<Rightarrow> string \<Rightarrow> string \<Rightarrow> string \<Rightarrow> int \<Rightarrow> int \<Rightarrow> int \<Rightarrow>
   (place list \<times> string option \<times> place list, 'z app_scheme) eff" where
  "deep_search env effectiveJobId city keyword gridSize maxPagesPerGrid remaining =
     bindE (deep_collect env effectiveJobId city keyword gridSize maxPagesPerGrid)
       (\<lambda>(collected, enriched0).
          deep_store env effectiveJobId (normalizeInput city) (normalizeInput keyword) remaining
            collected enriched0)"

text \<open>
  \<open>parseInt\<close> without a radix: leading white space, an optional sign, then the longest
  prefix of hexadecimal digits after \<open>0x\<close> or of decimal digits; \<open>None\<close> is \<open>NaN\<close>.
\<close>

definition is_digit :: "char \<Rightarrow> bool" where
  "is_digit c = (48 \<le> (of_char c :: nat) \<and> (of_char c :: nat) \<le> 57)"

definition hex_value :: "char \<Rightarrow> nat option" where
  "hex_value c =
     (let n = (of_char c :: nat)
      in if 48 \<le> n \<and> n \<le> 57 then Some (n - 48)
         else if 65 \<le> n \<and> n \<le> 70 then Some (n - 55)
         else if 97 \<le> n \<and> n \<le> 102 then Some (n - 87)
         else None)"

definition read_hex :: "string \<Rightarrow> nat" where
  "read_hex s = foldl (\<lambda>a c. 16 * a + the (hex_value c)) 0 s"

definition js_parseInt :: "string \<Rightarrow> int option" where
  "js_parseInt s =
     (let t = dropWhile is_space s;
          neg = (case t of c # _ \<Rightarrow> c = CHR ''-'' | [] \<Rightarrow> False);
          u = (case t of c # r \<Rightarrow> if c = CHR ''-'' \<or> c = CHR ''+'' then r else t | [] \<Rightarrow> []);
          sign = (if neg then - 1 else 1)
      in if startsWith u ''0x'' \<or> startsWith u ''0X'' then
           (let hs = takeWhile (\<lambda>c. hex_value c \<noteq> None) (drop 2 u)
            in if hs = [] then None else Some (sign * int (read_hex hs)))
         else
           (let ds = takeWhile is_digit u
            in if ds = [] then None else Some (sign * int (read_nat ds))))"

text \<open>\<open>initialPageToken.split(":")[1]\<close> of a token that starts with \<open>deep:\<close>.\<close>

definition deep_token_index :: "string \<Rightarrow> int option" where
  "deep_token_index token = js_parseInt (takeWhile (\<lambda>c. c \<noteq> CHR '':'') (drop 5 token))"

text \<open>
  The next page of a deep search, from the cached slim projection or else from the cached
  id list and the place table.
\<close>

definition deep_continuation ::
  "'z search_env \<Rightarrow> string \<Rightarrow> string \<Rightarrow> string \<Rightarrow> string \<Rightarrow>
   (place list \<times> string option \<times> place list, 'z app_scheme) eff" where
  "deep_continuation env effectiveJobId normalizedCity normalizedKeyword token =
     (case deep_token_index token of
        None \<Rightarrow> throwE InvalidPageToken
      | Some startIndex \<Rightarrow>
          bindE (redis_get (listDataCacheKey normalizedCity normalizedKeyword)) (\<lambda>allPlacesParam.
          bindE (redis_get (listCacheKey normalizedCity normalizedKeyword)) (\<lambda>allIdsParam.
            let nextToken = (\<lambda>total :: nat.
                  if startIndex + DEEP_PAGE_SIZE env < int total
                  then Some (''deep:'' @ show_int (startIndex + DEEP_PAGE_SIZE env)) else None)
            in if js_truthy allPlacesParam then
                 (let allPlaces = parse_listData env (the allPlacesParam);
                      limitedPlaces = js_slice allPlaces startIndex (startIndex + DEEP_PAGE_SIZE env)
                  in bindE (persistAndPublish effectiveJobId limitedPlaces) (\<lambda>enrichedPlaces.
                       returnE (limitedPlaces, nextToken (length allPlaces), enrichedPlaces)))
               else if \<not> js_truthy allIdsParam then throwE CacheExpiredError
               else
                 (let allIds = parse_ids env (the allIdsParam);
                      sliceIds = js_slice allIds startIndex (startIndex + DEEP_PAGE_SIZE env)
                  in (\<lambda>s.
                       let placesFromDb = filter (\<lambda>p. place_id p \<in> set sliceIds) (placeTable s);
                           limitedPlaces = map slim_place placesFromDb
                       in (Inr (limitedPlaces, nextToken (length allIds), limitedPlaces), s))))))"

subsection \<open>Billing\<close>

text \<open>
  The billing transaction of a new search: \<open>updateMany\<close> with
  \<open>credits: { gte: requiredCredits }\<close>, the ledger entry, and the history row unless the
  call is a paid pagination. A throw inside \<open>$transaction\<close> rolls everything back.
\<close>

definition billing_transaction ::
  "string \<Rightarrow> int \<Rightarrow> bool \<Rightarrow> bool \<Rightarrow> string \<Rightarrow> string \<Rightarrow> nat \<Rightarrow> (unit, 'z app_scheme) eff" where
  "billing_transaction userId required deepSearch paidPagination normalizedCity normalizedKeyword
       resultCount s =
     (case users s userId of
        None \<Rightarrow> (Inl (InsufficientBalanceError required), s)
      | Some u \<Rightarrow>
          if credits u \<ge> required then
            (Inr (),
             s\<lparr>users := (users s)(userId \<mapsto> u\<lparr>credits := credits u - required\<rparr>),
               creditTransactions := creditTransactions s @
                 [\<lparr>ct_userId = userId, ct_amount = - required,
                   ct_type = (if deepSearch then ''DEEP_SEARCH''
                              else if paidPagination then ''PAGE_LOAD'' else ''SEARCH''),
                   ct_city = normalizedCity, ct_keyword = normalizedKeyword,
                   ct_resultCount = Some resultCount, ct_pageToken = None\<rparr>],
               searchHistory :=
                 (if \<not> paidPagination
                  then searchHistory s @
                         [\<lparr>sh_userId = userId, sh_city = normalizedCity, sh_keyword = normalizedKeyword,
                           sh_resultCount = (if deepSearch then 999 else resultCount)\<rparr>]
                  else searchHistory s)\<rparr>)
          else (Inl (InsufficientBalanceError required), s))"

text \<open>
  The transaction of the provider-token pagination: \<open>updateMany\<close> on the user id alone,
  decrement by 1, and the ledger entry.
\<close>

definition legacy_transaction ::
  "string \<Rightarrow> string \<Rightarrow> string \<Rightarrow> string option \<Rightarrow> (unit, 'z app_scheme) eff" where
  "legacy_transaction userId normalizedCity normalizedKeyword initialPageToken s =
     (Inr (),
      s\<lparr>users := (case users s userId of
                     None \<Rightarrow> users s
                   | Some u \<Rightarrow> (users s)(userId \<mapsto> u\<lparr>credits := credits u - 1\<rparr>)),
        creditTransactions := creditTransactions s @
          [\<lparr>ct_userId = userId, ct_amount = - 1, ct_type = ''PAGE_LOAD'',
            ct_city = normalizedCity, ct_keyword = normalizedKeyword,
            ct_resultCount = None, ct_pageToken = initialPageToken\<rparr>]\<rparr>)"

definition cache_result :: "'z search_env \<Rightarrow> string \<Rightarrow> search_result \<Rightarrow> (unit, 'z app_scheme) eff" where
  "cache_result env key finalResult s =
     redis_set_ex key (stringify_result env finalResult) LONG_TERM_TTL
       (s\<lparr>searchCache := (searchCache s)(key \<mapsto> finalResult)\<rparr>)"

subsection \<open>executeSearchCore\<close>

definition new_user :: user where
  "new_user = \<lparr>credits = 100, subscriptionTier = FREE\<rparr>"

text \<open>
  Step 1: the user is read, and created with 100 credits on the FREE tier when missing.
\<close>

definition user_or_new :: "'z app_scheme \<Rightarrow> string \<Rightarrow> user" where
  "user_or_new s0 userId = (case users s0 userId of Some u \<Rightarrow> u | None \<Rightarrow> new_user)"

definition ensure_user :: "string \<Rightarrow> 'z app_scheme \<Rightarrow> 'z app_scheme" where
  "ensure_user userId s0 =
     (case users s0 userId of
        Some u \<Rightarrow> s0
      | None \<Rightarrow> s0\<lparr>users := (users s0)(userId \<mapsto> new_user)\<rparr>)"

text \<open>\<open>jobId || randomUUID()\<close>.\<close>

definition effectiveJobId_of :: "'z search_env \<Rightarrow> string option \<Rightarrow> string" where
  "effectiveJobId_of env jobId = (if js_truthy jobId then the jobId else randomUUID env)"

definition executeSearchCore ::
  "'z search_env \<Rightarrow> string \<Rightarrow> string \<Rightarrow> string \<Rightarrow> string option \<Rightarrow> bool \<Rightarrow> string option \<Rightarrow>
   (search_result, 'z app_scheme) eff" where
  "executeSearchCore env city keyword userId initialPageToken deepSearch jobId s0 =
     (let normalizedCity = normalizeInput city;
          normalizedKeyword = normalizeInput keyword;
          effectiveJobId = effectiveJobId_of env jobId;
          u = user_or_new s0 userId;
          s = ensure_user userId s0;
          required = requiredCredits initialPageToken deepSearch
      in if credits u < required then (Inl (InsufficientBalanceError required), s)
         else
           let tier = subscriptionTier u;
               STANDARD_PAGE_SIZE = resultsPerSearch env tier;
               remaining = remainingCredits u required;
               gridSize = gridSize_of env tier remaining;
               maxPagesPerGrid = maxPagesPerGrid_of env tier remaining
           in if is_deep_token initialPageToken then
                bindE (deep_continuation env effectiveJobId normalizedCity normalizedKeyword
                         (the initialPageToken))
                  (\<lambda>(limitedPlaces, nextToken, enrichedPlaces).
                     returnE \<lparr>res_places = enrichedPlaces, res_nextPageToken = nextToken,
                              res_jobId = effectiveJobId\<rparr>) s
              else if \<not> js_truthy initialPageToken then
                bindE (if deepSearch
                       then deep_search env effectiveJobId city keyword gridSize maxPagesPerGrid remaining
                       else standard_search env effectiveJobId city keyword STANDARD_PAGE_SIZE)
                  (\<lambda>(limitedPlaces, nextToken, enrichedPlaces) s1.
                     bindE (billing_transaction userId required deepSearch
                              (isPaidPagination initialPageToken deepSearch)
                              normalizedCity normalizedKeyword (length limitedPlaces)) (\<lambda>_.
                       let finalResult = \<lparr>res_places = enrichedPlaces, res_nextPageToken = nextToken,
                                          res_jobId = effectiveJobId\<rparr>
                       in bindE (cache_result env
                                   (cacheKey normalizedCity normalizedKeyword initialPageToken)
                                   finalResult)
                                (\<lambda>_. returnE finalResult))
                       (other_requests env s1)) s
              else
                bindE (gw_searchText env (keyword @ '' in '' @ city)
                         (default_options\<lparr>pageToken := initialPageToken\<rparr>))
                  (\<lambda>result s1.
                     bindE (legacy_transaction userId normalizedCity normalizedKeyword initialPageToken)
                       (\<lambda>_. bindE (persistAndPublish effectiveJobId (places result))
                                (\<lambda>enrichedPlaces.
                                   returnE \<lparr>res_places = enrichedPlaces,
                                            res_nextPageToken = nextPageToken result,
                                            res_jobId = effectiveJobId\<rparr>))
                       (other_requests env s1)) s)"

section \<open>Sample states for the concrete instances\<close>

definition lock_store :: redis where
  "lock_store = \<lparr>clock = 100,
                 kv = [''lock:a'' \<mapsto> \<lparr>rval = RString ''tok1'', rexpiry = Some 500\<rparr>],
                 online = True\<rparr>"







definition gym :: place where
  "gym = \<lparr>place_id = ''p1'', name = ''Gym'', website = None, place_viewport = None\<rparr>"








definition app0 :: app where
  "app0 = \<lparr>clock = 0, kv = Map.empty, online = True, currentKeyIndex = 0, log = [],
           users = [''u1'' \<mapsto> \<lparr>credits = 20, subscriptionTier = FREE\<rparr>],
           creditTransactions = [], searchHistory = [], placeTable = [], published = [],
           searchCache = Map.empty\<rparr>"

text \<open>A provider page of twenty results with a continuation token, and a short last page.\<close>

definition full_page :: "string \<Rightarrow> search_options \<Rightarrow> (GatewayResponse, app) eff" where
  "full_page query options s = (Inr \<lparr>places = replicate 20 gym, nextPageToken = Some ''next''\<rparr>, s)"

definition last_page :: "string \<Rightarrow> search_options \<Rightarrow> (GatewayResponse, app) eff" where
  "last_page query options s = (Inr \<lparr>places = [gym], nextPageToken = None\<rparr>, s)"

definition env0 :: "unit search_env" where
  "env0 = \<lparr>resultsPerSearch = (\<lambda>tier. 20),
           DEEP_SEARCH_MAX_PAGES = None, DEEP_SEARCH_PAGE_SIZE = None,
           DEEP_SEARCH_BUSINESS_GRID_SIZE = None, DEEP_SEARCH_BUSINESS_MAX_PAGES_PER_GRID = None,
           stringify_ids = (\<lambda>ids. ''ids''), parse_ids = (\<lambda>v. []),
           stringify_listData = (\<lambda>ps n. ''data''), parse_listData = (\<lambda>v. []),
           stringify_result = (\<lambda>r. ''result''),
           randomUUID = ''job-1'',
           gw_searchText = full_page,
           other_requests = (\<lambda>s. s)\<rparr>"

text \<open>The same environment with a plan of ten results per search.\<close>

definition env10 :: "unit search_env" where
  "env10 = env0\<lparr>resultsPerSearch := (\<lambda>tier. 10)\<rparr>"

text \<open>
  A user with one credit left, and a concurrent page load of the same user whose
  transaction commits while this call awaits the gateway.
\<close>

definition app1 :: app where
  "app1 = app0\<lparr>users := [''u1'' \<mapsto> \<lparr>credits = 1, subscriptionTier = FREE\<rparr>]\<rparr>"

definition concurrent_page_load :: "app \<Rightarrow> app" where
  "concurrent_page_load s = snd (legacy_transaction ''u1'' ''rome'' ''gym'' (Some ''tok'') s)"

definition env_race :: "unit search_env" where
  "env_race = env0\<lparr>gw_searchText := last_page, other_requests := concurrent_page_load\<rparr>"

text \<open>
  A deep search of a place the provider knows no viewport for: the city lookup finds
  nothing, and the single fallback query returns eleven results; the deep page size is
  configured to its minimum.
\<close>

definition no_viewport :: "string \<Rightarrow> search_options \<Rightarrow> (GatewayResponse, app) eff" where
  "no_viewport query options s =
     (if pageSize options = Some 1 then (Inr \<lparr>places = [], nextPageToken = None\<rparr>, s)
      else (Inr \<lparr>places = replicate 11 gym, nextPageToken = None\<rparr>, s))"

definition env_deep :: "unit search_env" where
  "env_deep = env0\<lparr>DEEP_SEARCH_PAGE_SIZE := Some 10, gw_searchText := no_viewport\<rparr>"

section \<open>Properties of the grid generator\<close>

lemma fold_snoc_map: "fold (\<lambda>x acc. acc @ [f x]) xs acc = acc @ map f xs"
  by (induction xs arbitrary: acc) auto

lemma fold_rows_concat:
  "fold (\<lambda>r acc. acc @ g r) rs acc = acc @ concat (map g rs)"
  by (induction rs arbitrary: acc) auto

lemma fold_grid:
  "fold (\<lambda>row points. fold (\<lambda>col points. points @ [f row col]) cs points) rs [] =
   concat (map (\<lambda>row. map (f row) cs) rs)"
proof -
  have "(\<lambda>row points. fold (\<lambda>col points. points @ [f row col]) cs points) =
        (\<lambda>row points. points @ map (f row) cs)"
    by (intro ext) (rule fold_snoc_map)
  then show ?thesis
    using fold_rows_concat [of "\<lambda>row. map (f row) cs" rs "[]"] by simp
qed

lemma gridSizeClamp_bounds: "1 \<le> gridSizeClamp g \<and> gridSizeClamp g \<le> 20"
  by (simp add: gridSizeClamp_def)

lemma real_gridSizeClamp: "real_of_int (gridSizeClamp g) = real (nat (gridSizeClamp g))"
  using gridSizeClamp_bounds [of g] by simp

lemma generateGrid_rows: "generateGrid viewport gridSize = gridRows viewport gridSize"
  unfolding generateGrid_def gridRows_def Let_def real_gridSizeClamp
  by (rule fold_grid)





lemma radius_gridRows:
  "p \<in> set (gridRows viewport gridSize) \<Longrightarrow>
   radius p = calculateRadius
      ((lat (northeast viewport) - lat (southwest viewport)) / real (nat (gridSizeClamp gridSize)))
      ((lng (northeast viewport) - lng (southwest viewport)) / real (nat (gridSizeClamp gridSize)))
      (lat (southwest viewport))"
  by (auto simp: gridRows_def Let_def cellCenter_def)



lemma calculateRadius_formula:
  "calculateRadius a b c =
     min 50000 (of_int \<lceil>1.1 * (sqrt ((a * 111000)\<^sup>2 + (b * (111000 * cos (c * pi / 180)))\<^sup>2) / 2)\<rceil>)"
proof -
  have "b * 111000 * cos (c * (pi / 180)) = b * (111000 * cos (c * pi / 180))"
    by simp
  moreover have "x / 2 * 1.1 = 1.1 * (x / 2)" for x :: real
    by simp
  ultimately show ?thesis
    unfolding calculateRadius_def MAX_RADIUS_def Let_def power2_eq_square
    by (simp only:)
qed

lemma cellCenter_formula:
  "cellCenter viewport a b r row col =
     \<lparr> lat = lat (southwest viewport) + (real row + 0.5) * a,
       lng = lng (southwest viewport) + (real col + 0.5) * b,
       radius = r \<rparr>"
proof -
  have "x + real k * d + d / 2 = x + (real k + 0.5) * d" for x d :: real and k :: nat
    by (simp add: distrib_right)
  then show ?thesis
    unfolding cellCenter_def by (simp only:)
qed

lemma upt_0_2: "[0..<2] = [0, Suc 0]"
  by (simp add: upt_rec numeral_2_eq_2)

lemma generateGrid_two_rows:
  "generateGrid \<lparr> northeast = \<lparr> lat = 0.0004, lng = 0 \<rparr>, southwest = \<lparr> lat = 0, lng = 0 \<rparr> \<rparr> 2 =
     [\<lparr> lat = 0.0001, lng = 0, radius = 13 \<rparr>, \<lparr> lat = 0.0001, lng = 0, radius = 13 \<rparr>,
      \<lparr> lat = 0.0003, lng = 0, radius = 13 \<rparr>, \<lparr> lat = 0.0003, lng = 0, radius = 13 \<rparr>]"
proof -
  have n: "nat (gridSizeClamp 2) = 2" by (simp add: gridSizeClamp_def)
  show ?thesis
    unfolding generateGrid_rows gridRows_def Let_def n upt_0_2 cellCenter_formula
      calculateRadius_formula
    by simp
qed



text \<open>
  Claim C10. All points of one \<open>generateGrid\<close> call carry the same radius: it is computed
  once, from the common cell spans and the viewport's southwest latitude, not per cell,
  so the northern rows get the radius of the southern ones.
\<close>

theorem generateGrid_uniform_radius:
  "let n = gridSizeClamp gridSize;
       cellLatSize = (lat (northeast viewport) - lat (southwest viewport)) / of_int n;
       cellLngSize = (lng (northeast viewport) - lng (southwest viewport)) / of_int n;
       pts = generateGrid viewport gridSize
   in (\<forall>p\<in>set pts. radius p = calculateRadius cellLatSize cellLngSize (lat (southwest viewport)))
      \<and> (\<forall>p\<in>set pts. \<forall>q\<in>set pts. radius p = radius q)"
proof -
  have r: "radius p = calculateRadius
      ((lat (northeast viewport) - lat (southwest viewport)) / of_int (gridSizeClamp gridSize))
      ((lng (northeast viewport) - lng (southwest viewport)) / of_int (gridSizeClamp gridSize))
      (lat (southwest viewport))"
    if "p \<in> set (generateGrid viewport gridSize)" for p
    using that radius_gridRows [of p viewport gridSize]
    by (simp only: generateGrid_rows real_gridSizeClamp)
  show ?thesis
    unfolding Let_def
  proof (intro conjI ballI)
    fix p assume "p \<in> set (generateGrid viewport gridSize)"
    then show "radius p = calculateRadius
      ((lat (northeast viewport) - lat (southwest viewport)) / of_int (gridSizeClamp gridSize))
      ((lng (northeast viewport) - lng (southwest viewport)) / of_int (gridSizeClamp gridSize))
      (lat (southwest viewport))"
      by (rule r)
  next
    fix p q
    assume "p \<in> set (generateGrid viewport gridSize)" "q \<in> set (generateGrid viewport gridSize)"
    then show "radius p = radius q" by (simp only: r)
  qed
qed

theorem generateGrid_uniform_radius_witness:
  "let pts = generateGrid \<lparr> northeast = \<lparr> lat = 0.0004, lng = 0 \<rparr>,
                            southwest = \<lparr> lat = 0, lng = 0 \<rparr> \<rparr> 2
   in lat (pts ! 0) = 0.0001 \<and> lat (pts ! 3) = 0.0003 \<and> radius (pts ! 0) = 13
      \<and> radius (pts ! 3) = 13"
proof -
  let ?vp = "\<lparr> northeast = \<lparr> lat = 0.0004, lng = 0 \<rparr>, southwest = \<lparr> lat = 0, lng = 0 \<rparr> \<rparr>"
  let ?pts = "generateGrid ?vp 2"
  have mem: "?pts ! 0 \<in> set ?pts" "?pts ! 3 \<in> set ?pts"
    unfolding generateGrid_two_rows by simp_all
  have "\<forall>p\<in>set ?pts. \<forall>q\<in>set ?pts. radius p = radius q"
    using generateGrid_uniform_radius [of 2 ?vp] unfolding Let_def by blast
  with mem have "radius (?pts ! 3) = radius (?pts ! 0)" by blast
  moreover have "radius (?pts ! 0) = 13" "lat (?pts ! 0) = 0.0001" "lat (?pts ! 3) = 0.0003"
    unfolding generateGrid_two_rows by simp_all
  ultimately show ?thesis
    unfolding Let_def by simp
qed

section \<open>Properties of the shared helpers\<close>

subsection \<open>Decimal strings round-trip\<close>

lemma of_char_digit_char: "d < 10 \<Longrightarrow> of_char (digit_char d) - 48 = (d::nat)"
proof -
  assume "d < 10"
  then have "d \<in> {0, 1, 2, 3, 4, 5, 6, 7, 8, 9}" by auto
  then show ?thesis
    by (auto simp: digit_char_def)
qed

lemma digit_char_not_minus: "d < 10 \<Longrightarrow> digit_char d \<noteq> CHR ''-''"
proof -
  assume "d < 10"
  then have "d \<in> {0, 1, 2, 3, 4, 5, 6, 7, 8, 9}" by auto
  then show ?thesis
    by (auto simp: digit_char_def)
qed

lemma read_nat_snoc: "read_nat (xs @ [c]) = 10 * read_nat xs + (of_char c - 48)"
  by (simp add: read_nat_def)

lemma read_show_nat: "read_nat (show_nat n) = n"
proof (induction n rule: show_nat.induct)
  case (1 n)
  show ?case
  proof (cases "n < 10")
    case True
    then show ?thesis
      by (simp add: show_nat.simps [of n] read_nat_def of_char_digit_char)
  next
    case False
    then have "read_nat (show_nat n) = 10 * read_nat (show_nat (n div 10)) + (n mod 10)"
      by (simp add: show_nat.simps [of n] read_nat_snoc of_char_digit_char)
    also have "\<dots> = 10 * (n div 10) + n mod 10"
      using 1 False by simp
    finally show ?thesis by simp
  qed
qed

lemma show_nat_hd: "\<exists>c cs. show_nat n = c # cs \<and> c \<noteq> CHR ''-''"
proof (induction n rule: show_nat.induct)
  case (1 n)
  show ?case
  proof (cases "n < 10")
    case True
    then show ?thesis
      by (simp add: show_nat.simps [of n] digit_char_not_minus)
  next
    case False
    with 1 obtain c cs where "show_nat (n div 10) = c # cs" "c \<noteq> CHR ''-''" by blast
    with False show ?thesis
      by (simp add: show_nat.simps [of n])
  qed
qed

lemma parse_show_int: "parse_int (show_int n) = Some n"
proof (cases "n < 0")
  case True
  then show ?thesis
    by (simp add: parse_int_def show_int_def read_show_nat)
next
  case False
  obtain c cs where s: "show_nat (nat n) = c # cs" "c \<noteq> CHR ''-''"
    using show_nat_hd by blast
  have "read_nat (c # cs) = nat n"
    using read_show_nat [of "nat n"] s by simp
  with False s show ?thesis
    by (simp add: parse_int_def show_int_def)
qed

section \<open>Properties of the traffic-control primitives\<close>

text \<open>With a positive finite limit the limiters do use the cache.\<close>

lemma rateLimitFixedWindow_enabled_offline:
  "rateLimitFixedWindow ''k'' (Finite 5) 60 \<lparr>clock = 5, kv = Map.empty, online = False\<rparr>
     = (Inl RedisError, \<lparr>clock = 5, kv = Map.empty, online = False\<rparr>)"
  by (simp add: rateLimitFixedWindow_def bindE_def redis_incr_def redis_incrby_def)

text \<open>
  Claim C9. A limit that is not finite or is at most 0 disables the guard instead of
  denying everything: both rate limiters answer \<open>allowed = True\<close> in every cache state
  (also one whose commands all fail) and leave it as it is, so the cache is neither read
  nor written, and the in-flight limiter is the work itself, with no counter.
\<close>

theorem limiters_disabled:
  assumes "\<not> isFinite limit \<or> js_le limit (Finite 0)"
  shows "rateLimitFixedWindow key limit windowSec r = (Inr \<lparr>allowed = True\<rparr>, r)
       \<and> rateLimitSlidingWindow tag key limit windowSec r = (Inr \<lparr>allowed = True\<rparr>, r)
       \<and> withInflightLimiter key limit ttlSec work = work"
  using assms
  by (simp add: rateLimitFixedWindow_def rateLimitSlidingWindow_def withInflightLimiter_def
                returnE_def)

theorem limiters_disabled_witness:
  "rateLimitFixedWindow ''rl:user'' (Finite 0) 60 \<lparr>clock = 5, kv = Map.empty, online = False\<rparr>
       = (Inr \<lparr>allowed = True\<rparr>, \<lparr>clock = 5, kv = Map.empty, online = False\<rparr>)
   \<and> rateLimitSlidingWindow ''t'' ''rl:user'' NaN 60 \<lparr>clock = 5, kv = Map.empty, online = False\<rparr>
       = (Inr \<lparr>allowed = True\<rparr>, \<lparr>clock = 5, kv = Map.empty, online = False\<rparr>)
   \<and> withInflightLimiter ''inflight'' PosInfinity 30 (throwE (WorkError ''x''))
         \<lparr>clock = 5, kv = Map.empty, online = True\<rparr>
       = (Inl (WorkError ''x''), \<lparr>clock = 5, kv = Map.empty, online = True\<rparr>)"
proof -
  let ?off = "\<lparr>clock = 5, kv = Map.empty, online = False\<rparr>"
  let ?on = "\<lparr>clock = 5, kv = Map.empty, online = True\<rparr>"
  have h0: "\<not> isFinite (Finite 0) \<or> js_le (Finite 0) (Finite 0)" by simp
  have h1: "\<not> isFinite NaN \<or> js_le NaN (Finite 0)" by simp
  have h2: "\<not> isFinite PosInfinity \<or> js_le PosInfinity (Finite 0)" by simp
  have a: "rateLimitFixedWindow ''rl:user'' (Finite 0) 60 ?off = (Inr \<lparr>allowed = True\<rparr>, ?off)"
    using limiters_disabled [OF h0, where key = "''rl:user''" and windowSec = 60 and r = ?off]
    by blast
  have b: "rateLimitSlidingWindow ''t'' ''rl:user'' NaN 60 ?off = (Inr \<lparr>allowed = True\<rparr>, ?off)"
    using limiters_disabled [OF h1, where key = "''rl:user''" and windowSec = 60 and r = ?off
                                      and tag = "''t''"]
    by blast
  have c: "withInflightLimiter ''inflight'' PosInfinity 30 (throwE (WorkError ''x''))
             = throwE (WorkError ''x'')"
    using limiters_disabled [OF h2, where key = "''inflight''" and ttlSec = 30
                                      and work = "throwE (WorkError ''x'')"]
    by blast
  have d: "throwE (WorkError ''x'') ?on = (Inl (WorkError ''x''), ?on)"
    by (simp add: throwE_def)
  have e: "withInflightLimiter ''inflight'' PosInfinity 30 (throwE (WorkError ''x'')) ?on
             = (Inl (WorkError ''x''), ?on)"
    by (simp only: c d)
  show ?thesis
    using a b e by blast
qed

lemma releaseLock_on_returns: "fst (releaseLock_on eval key token s) = Inr ()"
  by (simp add: releaseLock_on_def catchE_def bindE_def returnE_def
           split: prod.splits sum.splits)

lemma releaseLock_online:
  "online r \<Longrightarrow>
   releaseLock key token r =
     (Inr (), if map_option rval (live r key) = Some (RString token)
              then r\<lparr>kv := (kv r)(key := None)\<rparr> else r)"
  by (auto simp: releaseLock_def releaseLock_on_def RELEASE_LOCK_LUA_def catchE_def bindE_def
                 returnE_def redis_get_def redis_del_def
           split: option.splits rvalue.splits)

lemma releaseLock_offline:
  "\<not> online r \<Longrightarrow> releaseLock key token r = (Inr (), r)"
  by (simp add: releaseLock_def releaseLock_on_def RELEASE_LOCK_LUA_def catchE_def bindE_def
                 returnE_def redis_get_def)

text \<open>
  Claim C8. \<open>releaseLock key token\<close> deletes the lock key exactly when the value stored
  under it is the caller's token; with another holder's token, or no (unexpired) key, the
  cache is left as it is; and the call never throws, whatever the store's \<open>eval\<close> does.
\<close>

theorem releaseLock_compare_and_delete:
  "fst (releaseLock_on eval key token s) = Inr ()
   \<and> fst (releaseLock key token r) = Inr ()
   \<and> (online r \<longrightarrow>
        snd (releaseLock key token r) =
          (if map_option rval (live r key) = Some (RString token)
           then r\<lparr>kv := (kv r)(key := None)\<rparr> else r))
   \<and> (\<not> online r \<longrightarrow> snd (releaseLock key token r) = r)"
  using releaseLock_on_returns [of eval key token s]
        releaseLock_on_returns [of RELEASE_LOCK_LUA key token r]
        releaseLock_online [of r key token] releaseLock_offline [of r key token]
  by (simp add: releaseLock_def)

theorem releaseLock_compare_and_delete_witness:
  "online lock_store
   \<and> releaseLock ''lock:a'' ''tok1'' lock_store = (Inr (), lock_store\<lparr>kv := Map.empty\<rparr>)
   \<and> releaseLock ''lock:a'' ''tok2'' lock_store = (Inr (), lock_store)
   \<and> releaseLock ''lock:a'' ''tok1'' (lock_store\<lparr>online := False\<rparr>)
        = (Inr (), lock_store\<lparr>online := False\<rparr>)
   \<and> releaseLock_on (\<lambda>k t. throwE RedisError) ''lock:a'' ''tok1'' lock_store = (Inr (), lock_store)"
proof -
  have on: "online lock_store" by (simp add: lock_store_def)
  have l: "map_option rval (live lock_store ''lock:a'') = Some (RString ''tok1'')"
    by (simp add: lock_store_def live_def)
  have a: "releaseLock ''lock:a'' ''tok1'' lock_store = (Inr (), lock_store\<lparr>kv := Map.empty\<rparr>)"
    using releaseLock_compare_and_delete [of "\<lambda>k t. throwE RedisError" "''lock:a''" "''tok1''" lock_store lock_store]
          on l
    by (simp add: prod_eq_iff lock_store_def)
  have b: "releaseLock ''lock:a'' ''tok2'' lock_store = (Inr (), lock_store)"
    using releaseLock_compare_and_delete [of "\<lambda>k t. throwE RedisError" "''lock:a''" "''tok2''" lock_store lock_store]
          on l
    by (simp add: prod_eq_iff)
  have c: "releaseLock ''lock:a'' ''tok1'' (lock_store\<lparr>online := False\<rparr>)
        = (Inr (), lock_store\<lparr>online := False\<rparr>)"
    using releaseLock_compare_and_delete [of "\<lambda>k t. throwE RedisError" "''lock:a''" "''tok1''" lock_store
            "lock_store\<lparr>online := False\<rparr>"]
    by (simp add: prod_eq_iff)
  have d: "releaseLock_on (\<lambda>k t. throwE RedisError) ''lock:a'' ''tok1'' lock_store = (Inr (), lock_store)"
    using releaseLock_compare_and_delete [of "\<lambda>k t. throwE RedisError" "''lock:a''" "''tok1''" lock_store lock_store]
    by (simp add: prod_eq_iff releaseLock_on_def catchE_def bindE_def throwE_def returnE_def)
  show ?thesis using on a b c d by blast
qed

subsection \<open>Circuit breaker\<close>

lemma cb_keys_distinct: "cb_stateKey s \<noteq> cb_failureCountKey s"
  by (simp add: cb_stateKey_def cb_failureCountKey_def)

lemma redis_incr_counter:
  "online r \<Longrightarrow> counter_value r k = Some c \<Longrightarrow>
   redis_incr k r =
     (Inr (c + 1),
      r\<lparr>kv := (kv r)(k \<mapsto> (case live r k of
                                None \<Rightarrow> \<lparr>rval = RString (show_int (c + 1)), rexpiry = None\<rparr>
                              | Some e \<Rightarrow> e\<lparr>rval := RString (show_int (c + 1))\<rparr>))\<rparr>)"
  by (auto simp: redis_incr_def redis_incrby_def counter_value_def
           split: option.splits rvalue.splits)




lemma breaker_failure_counts:
  assumes "redis_get (cb_stateKey svc) r = (Inr st, r')" "st \<noteq> Some ''OPEN''"
      and "work r' = (Inl err, r2)" "online r2"
      and "counter_value r2 (cb_failureCountKey svc) = Some c"
      and "c + 1 < actualFailureThreshold cfg"
  shows "\<exists>r3. withCircuitBreaker svc cfg work r = (Inl err, r3)
              \<and> kv r3 (cb_stateKey svc) = kv r2 (cb_stateKey svc)
              \<and> counter_value r3 (cb_failureCountKey svc) = Some (c + 1)"
  using assms cb_keys_distinct [of svc]
  by (auto simp: withCircuitBreaker_def cb_onFailure_def bindE_def catchE_def throwE_def returnE_def Let_def
                redis_incr_counter counter_value_def live_def parse_show_int
           split: option.splits)






section \<open>Properties of the gateway\<close>

subsection \<open>The retry loop of searchText\<close>



subsection \<open>Cache commands leave the gateway's own state alone\<close>



lemma same_gw_get: "same_gw g (snd (redis_get k g))"
  by (simp add: same_gw_def redis_get_def split: option.splits rvalue.splits)





















subsection \<open>scanCity with a recording search function\<close>















section \<open>Properties of the search orchestration\<close>

lemma length_js_slice_prefix: "0 \<le> n \<Longrightarrow> length (js_slice xs 0 n) = min (nat n) (length xs)"
  by (auto simp: js_slice_def Let_def)

lemma js_slice_prefix: "0 \<le> n \<Longrightarrow> js_slice xs 0 n = take (nat n) xs"
proof -
  assume n: "0 \<le> n"
  have "nat (min n (int (length xs))) = min (nat n) (length xs)"
    using n by (simp add: min_def nat_le_iff le_nat_iff)
  then show ?thesis
    using n by (simp add: js_slice_def Let_def take_all_iff min_def)
qed

lemma standard_nextToken_policy:
  "standard_nextToken cap allPlaces currentToken =
     (if \<not> js_truthy currentToken
      then (if length allPlaces < 60 then None else Some ''google_limit_reached'')
      else if cap < length allPlaces then Some ''plan_limit_reached''
      else currentToken)"
  by (auto simp: standard_nextToken_def Let_def length_js_slice_prefix)

lemma standard_search_result:
  assumes "standard_search env job city keyword cap s = (Inr (limited, nextToken, enriched), s1)"
  shows "\<exists>allPlaces enrichedPlaces currentToken.
           standard_loop env job (keyword @ '' in '' @ city) cap 0 [] [] None s
             = (Inr (allPlaces, enrichedPlaces, currentToken), s1)
         \<and> limited = take cap allPlaces
         \<and> nextToken = standard_nextToken cap allPlaces currentToken
         \<and> enriched = take cap enrichedPlaces"
proof -
  obtain r s' where l: "standard_loop env job (keyword @ '' in '' @ city) cap 0 [] [] None s = (r, s')"
    by force
  show ?thesis
  proof (cases r)
    case (Inl e)
    then show ?thesis
      using assms l by (simp add: standard_search_def bindE_def)
  next
    case (Inr t)
    obtain a e c where t: "t = (a, e, c)" by (cases t) auto
    show ?thesis
      using assms l Inr t
      by (simp add: standard_search_def bindE_def returnE_def js_slice_prefix)
  qed
qed

lemma executeSearchCore_standard:
  assumes "\<not> js_truthy initialPageToken"
      and "executeSearchCore env city keyword userId initialPageToken False jobId s0 = (Inr result, s')"
  shows "\<exists>limited nextToken enriched s1.
           standard_search env (effectiveJobId_of env jobId) city keyword
              (resultsPerSearch env (subscriptionTier (user_or_new s0 userId)))
              (ensure_user userId s0)
             = (Inr (limited, nextToken, enriched), s1)
         \<and> res_places result = enriched
         \<and> res_nextPageToken result = nextToken
         \<and> res_jobId result = effectiveJobId_of env jobId"
proof -
  let ?cap = "resultsPerSearch env (subscriptionTier (user_or_new s0 userId))"
  let ?job = "effectiveJobId_of env jobId"
  have nd: "\<not> is_deep_token initialPageToken"
    using assms(1) by (auto simp: is_deep_token_def js_truthy_def split: option.splits)
  obtain r s1 where ss: "standard_search env ?job city keyword ?cap (ensure_user userId s0) = (r, s1)"
    by force
  show ?thesis
  proof (cases r)
    case (Inl e)
    then show ?thesis
      using assms nd ss
      by (simp add: executeSearchCore_def Let_def bindE_def split: if_splits)
  next
    case (Inr t)
    obtain l n e where t: "t = (l, n, e)" by (cases t) auto
    show ?thesis
      using assms nd ss Inr t
      by (auto simp: executeSearchCore_def Let_def bindE_def returnE_def
               split: if_splits sum.splits prod.splits)
  qed
qed

lemma saved_place_gym: "saved_place gym = gym"
  by (simp add: saved_place_def gym_def)

lemma env0_fields:
  "resultsPerSearch env0 tier = 20" "gw_searchText env0 = full_page" "other_requests env0 s = s"
  "randomUUID env0 = ''job-1''" "stringify_result env0 r = ''result''"
  by (simp_all add: env0_def)

lemma app0_fields:
  "users app0 ''u1'' = Some \<lparr>credits = 20, subscriptionTier = FREE\<rparr>" "online app0"
  by (simp_all add: app0_def)

lemma full_page_loop:
  "standard_loop env0 ''job-1'' q 20 0 [] [] None app0 =
     (Inr (replicate 20 gym, replicate 20 gym, Some ''next''),
      app0\<lparr>placeTable := fold upsert_place (replicate 20 gym) (placeTable app0),
           published := published app0 @ [(''job-1'', replicate 20 gym)]\<rparr>)"
  apply (subst standard_loop.simps)
  apply (simp add: MAX_FETCHES_def env0_fields full_page_def persistAndPublish_def Let_def
                   bindE_def returnE_def redis_publish_def app0_fields saved_place_gym js_truthy_def)
  apply (subst standard_loop.simps)
  apply (simp add: MAX_FETCHES_def)
  done

lemma full_page_search:
  "fst (executeSearchCore env0 ''Rome'' ''gym'' ''u1'' None False None app0) =
     Inr \<lparr>res_places = replicate 20 gym, res_nextPageToken = Some ''next'', res_jobId = ''job-1''\<rparr>"
proof -
  have n: "normalizeInput ''Rome'' = ''rome''" "normalizeInput ''gym'' = ''gym''"
    by (simp_all add: normalizeInput_def is_space_def toLowerCase_char_def)
  have u: "user_or_new app0 ''u1'' = \<lparr>credits = 20, subscriptionTier = FREE\<rparr>"
          "ensure_user ''u1'' app0 = app0"
    by (simp_all add: user_or_new_def ensure_user_def app0_fields)
  have j: "effectiveJobId_of env0 None = ''job-1''"
    by (simp add: effectiveJobId_of_def js_truthy_def env0_fields)
  have t: "standard_nextToken 20 (replicate 20 gym) (Some ''next'') = Some ''next''"
    by (simp add: standard_nextToken_policy js_truthy_def)
  show ?thesis
    by (simp add: executeSearchCore_def Let_def n u j requiredCredits_def js_truthy_def
          is_deep_token_def isPaidPagination_def standard_search_def full_page_loop t
          bindE_def returnE_def js_slice_prefix env0_fields
          billing_transaction_def cache_result_def redis_set_ex_def LONG_TERM_TTL_def app0_fields)
qed

lemma env10_fields:
  "resultsPerSearch env10 tier = 10" "gw_searchText env10 = full_page" "other_requests env10 s = s"
  "randomUUID env10 = ''job-1''" "stringify_result env10 r = ''result''"
  by (simp_all add: env10_def env0_def)

lemma full_page_loop10:
  "standard_loop env10 ''job-1'' q 10 0 [] [] None app0 =
     (Inr (replicate 20 gym, replicate 20 gym, Some ''next''),
      app0\<lparr>placeTable := fold upsert_place (replicate 20 gym) (placeTable app0),
           published := published app0 @ [(''job-1'', replicate 20 gym)]\<rparr>)"
  apply (subst standard_loop.simps)
  apply (simp add: MAX_FETCHES_def env10_fields full_page_def persistAndPublish_def Let_def
                   bindE_def returnE_def redis_publish_def app0_fields saved_place_gym js_truthy_def)
  apply (subst standard_loop.simps)
  apply (simp add: MAX_FETCHES_def)
  done

lemma full_page_search10:
  "fst (executeSearchCore env10 ''Rome'' ''gym'' ''u1'' None False None app0) =
     Inr \<lparr>res_places = replicate 10 gym, res_nextPageToken = Some ''plan_limit_reached'',
          res_jobId = ''job-1''\<rparr>"
proof -
  have n: "normalizeInput ''Rome'' = ''rome''" "normalizeInput ''gym'' = ''gym''"
    by (simp_all add: normalizeInput_def is_space_def toLowerCase_char_def)
  have u: "user_or_new app0 ''u1'' = \<lparr>credits = 20, subscriptionTier = FREE\<rparr>"
          "ensure_user ''u1'' app0 = app0"
    by (simp_all add: user_or_new_def ensure_user_def app0_fields)
  have j: "effectiveJobId_of env10 None = ''job-1''"
    by (simp add: effectiveJobId_of_def js_truthy_def env10_fields)
  have t: "standard_nextToken 10 (replicate 20 gym) (Some ''next'') = Some ''plan_limit_reached''"
    by (simp add: standard_nextToken_policy js_truthy_def)
  have k: "take 10 (replicate 20 gym) = replicate 10 gym" by simp
  show ?thesis
    by (simp add: executeSearchCore_def Let_def n u j requiredCredits_def js_truthy_def
          is_deep_token_def isPaidPagination_def standard_search_def full_page_loop10 t k
          bindE_def returnE_def js_slice_prefix env10_fields
          billing_transaction_def cache_result_def redis_set_ex_def LONG_TERM_TTL_def app0_fields)
qed

subsection \<open>Billing\<close>

lemma billing_transaction_atomic:
  "(\<exists>u. users s userId = Some u \<and> required \<le> credits u
        \<and> billing_transaction userId required deep paid c k n s =
            (Inr (),
             s\<lparr>users := (users s)(userId \<mapsto> u\<lparr>credits := credits u - required\<rparr>),
               creditTransactions := creditTransactions s @
                 [\<lparr>ct_userId = userId, ct_amount = - required,
                   ct_type = (if deep then ''DEEP_SEARCH'' else if paid then ''PAGE_LOAD'' else ''SEARCH''),
                   ct_city = c, ct_keyword = k, ct_resultCount = Some n, ct_pageToken = None\<rparr>],
               searchHistory :=
                 (if \<not> paid
                  then searchHistory s @
                         [\<lparr>sh_userId = userId, sh_city = c, sh_keyword = k,
                           sh_resultCount = (if deep then 999 else n)\<rparr>]
                  else searchHistory s)\<rparr>))
   \<or> billing_transaction userId required deep paid c k n s = (Inl (InsufficientBalanceError required), s)"
  by (auto simp: billing_transaction_def split: option.splits)

lemma billing_transaction_no_overdraw:
  assumes "billing_transaction userId required deep paid c k n s = (r, s')"
      and "users s userId = Some u" "0 \<le> credits u"
  shows "\<exists>u'. users s' userId = Some u' \<and> 0 \<le> credits u'"
  using assms by (auto simp: billing_transaction_def split: if_splits)

lemma race_fields:
  "gw_searchText env_race = last_page" "other_requests env_race = concurrent_page_load"
  "randomUUID env_race = ''job-1''" "resultsPerSearch env_race tier = 20"
  "stringify_result env_race r = ''result''"
  by (simp_all add: env_race_def env0_def)

lemma app1_fields:
  "users app1 ''u1'' = Some \<lparr>credits = 1, subscriptionTier = FREE\<rparr>" "online app1"
  "creditTransactions app1 = []" "placeTable app1 = []" "published app1 = []"
  by (simp_all add: app1_def app0_def)

lemma normalize_samples:
  "normalizeInput ''Rome'' = ''rome''" "normalizeInput ''gym'' = ''gym''"
  by (simp_all add: normalizeInput_def is_space_def toLowerCase_char_def)

subsection \<open>Deep search\<close>

lemma deep_fields:
  "gw_searchText env_deep = no_viewport" "other_requests env_deep s = s"
  "randomUUID env_deep = ''job-1''" "resultsPerSearch env_deep tier = 20"
  "stringify_result env_deep r = ''result''" "stringify_ids env_deep ids = ''ids''"
  "stringify_listData env_deep ps n = ''data''"
  "DEEP_PAGE_SIZE env_deep = 10" "MAX_DEEP_PAGES env_deep = 200"
  by (simp_all add: env_deep_def env0_def DEEP_PAGE_SIZE_def MAX_DEEP_PAGES_def)

lemma app0_more_fields:
  "creditTransactions app0 = []" "placeTable app0 = []" "published app0 = []"
  "searchHistory app0 = []"
  by (simp_all add: app0_def)

lemma show_int_10: "show_int 10 = ''10''"
  by (simp add: show_int_def show_nat.simps digit_char_def)

lemma DEEP_PAGE_SIZE_bounds: "10 \<le> DEEP_PAGE_SIZE env \<and> DEEP_PAGE_SIZE env \<le> 500"
  by (simp add: DEEP_PAGE_SIZE_def Let_def split: option.splits)

lemma list_keys_distinct: "listCacheKey c k \<noteq> listDataCacheKey c k"
proof
  assume "listCacheKey c k = listDataCacheKey c k"
  then have "length (listCacheKey c k) = length (listDataCacheKey c k)" by simp
  then show False by (simp add: listCacheKey_def listDataCacheKey_def)
qed

lemma persistAndPublish_result:
  assumes "persistAndPublish job ps s = (Inr batch, s')"
  shows "batch = map saved_place ps \<and> kv s' = kv s \<and> users s' = users s"
  using assms
  by (auto simp: persistAndPublish_def returnE_def bindE_def redis_publish_def Let_def
           split: if_splits)

lemma maxResultsByCredits_nonneg:
  assumes "0 \<le> MAX_DEEP_PAGES env" "0 \<le> remaining"
  shows "0 \<le> maxResultsByCredits env remaining"
    and "maxResultsByCredits env remaining
           = min (MAX_DEEP_PAGES env) (1 + remaining) * DEEP_PAGE_SIZE env"
  using assms DEEP_PAGE_SIZE_bounds [of env]
  by (simp_all add: maxResultsByCredits_def Let_def)

text \<open>
  On the grid path of a new deep search nothing was persisted before the cap
  (\<open>enrichedPlaces\<close> is still empty), and the bounds of the first page hold: the cached
  id list is the collected list cut to \<open>min MAX_DEEP_PAGES (1 + remaining)\<close> pages, the
  returned page is its first \<open>DEEP_PAGE_SIZE\<close> places, and the token \<open>deep:\<close>\<open>DEEP_PAGE_SIZE\<close>
  is set exactly when the list is longer than the page.
\<close>

lemma deep_store_grid_page:
  assumes run: "deep_store env job c k remaining collected [] s = (Inr (limited, nextToken, enriched), s')"
      and cfg: "0 \<le> MAX_DEEP_PAGES env" "0 \<le> remaining"
  shows "\<exists>allPlaces.
           allPlaces = take (nat (min (MAX_DEEP_PAGES env) (1 + remaining) * DEEP_PAGE_SIZE env)) collected
         \<and> int (length allPlaces) \<le> min (MAX_DEEP_PAGES env) (1 + remaining) * DEEP_PAGE_SIZE env
         \<and> map_option rval (kv s' (listCacheKey c k))
             = Some (RString (stringify_ids env (map place_id allPlaces)))
         \<and> limited = take (nat (DEEP_PAGE_SIZE env)) allPlaces
         \<and> enriched = map saved_place limited
         \<and> int (length enriched) \<le> DEEP_PAGE_SIZE env
         \<and> nextToken = (if nat (DEEP_PAGE_SIZE env) < length allPlaces
                         then Some (''deep:'' @ show_int (DEEP_PAGE_SIZE env)) else None)"
proof -
  let ?N = "DEEP_PAGE_SIZE env"
  let ?cap = "maxResultsByCredits env remaining"
  let ?all = "if int (length collected) > ?cap then js_slice collected 0 ?cap else collected"
  have N: "10 \<le> ?N" using DEEP_PAGE_SIZE_bounds [of env] by simp
  have cap: "0 \<le> ?cap" "?cap = min (MAX_DEEP_PAGES env) (1 + remaining) * ?N"
    using maxResultsByCredits_nonneg [OF cfg] by simp_all
  have all: "?all = take (nat ?cap) collected"
    using cap(1) by (auto simp: js_slice_prefix)
  have len: "int (length ?all) \<le> ?cap"
    using cap(1) by (auto simp: js_slice_prefix)
  let ?lim = "js_slice ?all 0 ?N"
  have lim: "?lim = take (nat ?N) ?all"
    using N by (simp add: js_slice_prefix)
  let ?tok = "if int (length ?all) > ?N then Some (''deep:'' @ show_int ?N) else None"
  have on: "online s"
    using run by (auto simp: deep_store_def Let_def bindE_def redis_set_ex_def split: if_splits)
  let ?s2 = "s\<lparr>kv := (kv s)
               (listCacheKey c k \<mapsto> \<lparr>rval = RString (stringify_ids env (map place_id ?all)),
                                     rexpiry = Some (clock s + nat LONG_TERM_TTL * 1000)\<rparr>,
                listDataCacheKey c k \<mapsto> \<lparr>rval = RString (stringify_listData env (map slim_place ?all) ?N),
                                         rexpiry = Some (clock s + nat LONG_TERM_TTL * 1000)\<rparr>)\<rparr>"
  have step: "deep_store env job c k remaining collected [] s =
                bindE (persistAndPublish job ?lim)
                      (\<lambda>enrichedPlaces. returnE (?lim, ?tok, enrichedPlaces)) ?s2"
    using on by (simp add: deep_store_def Let_def bindE_def redis_set_ex_def LONG_TERM_TTL_def)
  obtain r s3 where p: "persistAndPublish job ?lim ?s2 = (r, s3)" by force
  have "\<exists>batch. r = Inr batch"
    using run step p by (cases r) (simp_all add: bindE_def)
  then obtain batch where r: "r = Inr batch" by blast
  have res: "limited = ?lim" "nextToken = ?tok" "enriched = batch" "s' = s3"
    using run step p r by (simp_all add: bindE_def returnE_def)
  have b: "batch = map saved_place ?lim" "kv s3 = kv ?s2"
    using persistAndPublish_result [of job ?lim ?s2 batch s3] p r by simp_all
  define A where "A = take (nat (min (MAX_DEEP_PAGES env) (1 + remaining) * ?N)) collected"
  have A: "?all = A"
    using all by (simp only: A_def cap(2))
  have f1: "int (length A) \<le> min (MAX_DEEP_PAGES env) (1 + remaining) * ?N"
    using len [unfolded A] cap(2) by simp
  have f2: "map_option rval (kv s' (listCacheKey c k))
              = Some (RString (stringify_ids env (map place_id A)))"
    using list_keys_distinct [of c k] b(2) [unfolded A] by (simp add: res)
  have f3: "limited = take (nat ?N) A"
    using res(1) lim [unfolded A] by (simp only: A)
  have f4: "enriched = map saved_place limited"
    by (simp only: res b)
  have f5: "int (length enriched) \<le> ?N"
    using N by (simp add: f4 f3)
  have f6: "nextToken = (if nat ?N < length A then Some (''deep:'' @ show_int ?N) else None)"
    using N res(2) [unfolded A] by auto
  show ?thesis
    using A_def f1 f2 f3 f4 f5 f6 by blast
qed

text \<open>
  A new deep search that returns has charged exactly 10 credits to the balance found by
  its billing transaction, with one ledger entry of -10 and one history row.
\<close>

lemma deep_search_charge:
  assumes "\<not> js_truthy initialPageToken"
      and "executeSearchCore env city keyword userId initialPageToken True jobId s0 = (Inr result, s')"
  shows "\<exists>s1 u (limited :: place list).
           users (other_requests env s1) userId = Some u \<and> 10 \<le> credits u
         \<and> users s' userId = Some (u\<lparr>credits := credits u - 10\<rparr>)
         \<and> creditTransactions s' = creditTransactions (other_requests env s1) @
               [\<lparr>ct_userId = userId, ct_amount = - 10, ct_type = ''DEEP_SEARCH'',
                 ct_city = normalizeInput city, ct_keyword = normalizeInput keyword,
                 ct_resultCount = Some (length limited), ct_pageToken = None\<rparr>]
         \<and> length (searchHistory s') = length (searchHistory (other_requests env s1)) + 1"
proof -
  let ?u = "user_or_new s0 userId"
  let ?rem = "remainingCredits ?u 10"
  let ?ds = "deep_search env (effectiveJobId_of env jobId) city keyword
               (gridSize_of env (subscriptionTier ?u) ?rem)
               (maxPagesPerGrid_of env (subscriptionTier ?u) ?rem) ?rem"
  have rq: "requiredCredits initialPageToken True = 10" "isPaidPagination initialPageToken True = False"
    using assms(1) by (simp_all add: requiredCredits_def isPaidPagination_def)
  have nd: "\<not> is_deep_token initialPageToken"
    using assms(1) by (auto simp: is_deep_token_def js_truthy_def split: option.splits)
  obtain r s1 where ds: "?ds (ensure_user userId s0) = (r, s1)" by force
  have "\<not> isl r"
    using assms nd ds rq
    by (cases r) (simp_all add: executeSearchCore_def Let_def bindE_def split: if_splits)
  then obtain limited nextToken enriched where r: "r = Inr (limited, nextToken, enriched)"
    by (cases r) (auto intro: prod_cases3)
  let ?s2 = "other_requests env s1"
  obtain b s3 where bt: "billing_transaction userId 10 True False (normalizeInput city)
                           (normalizeInput keyword) (length limited) ?s2 = (b, s3)"
    by force
  have bok: "b = Inr ()"
    using assms nd ds rq r bt
    by (cases b) (simp_all add: executeSearchCore_def Let_def bindE_def split: if_splits)
  from billing_transaction_atomic [of ?s2 userId 10 True False "normalizeInput city"
         "normalizeInput keyword" "length limited"]
  obtain u where u: "users ?s2 userId = Some u" "10 \<le> credits u"
      and s3: "s3 = ?s2\<lparr>users := (users ?s2)(userId \<mapsto> u\<lparr>credits := credits u - 10\<rparr>),
               creditTransactions := creditTransactions ?s2 @
                 [\<lparr>ct_userId = userId, ct_amount = - 10, ct_type = ''DEEP_SEARCH'',
                   ct_city = normalizeInput city, ct_keyword = normalizeInput keyword,
                   ct_resultCount = Some (length limited), ct_pageToken = None\<rparr>],
               searchHistory := searchHistory ?s2 @
                         [\<lparr>sh_userId = userId, sh_city = normalizeInput city,
                           sh_keyword = normalizeInput keyword, sh_resultCount = 999\<rparr>]\<rparr>"
    using bt bok by auto
  let ?final = "\<lparr>res_places = enriched, res_nextPageToken = nextToken,
                  res_jobId = effectiveJobId_of env jobId\<rparr>"
  obtain c s4 where cr: "cache_result env
        (cacheKey (normalizeInput city) (normalizeInput keyword) initialPageToken) ?final s3 = (c, s4)"
    by force
  have frame: "users s4 = users s3" "creditTransactions s4 = creditTransactions s3"
      "searchHistory s4 = searchHistory s3"
    using cr by (auto simp: cache_result_def redis_set_ex_def split: if_splits)
  have "s' = s4"
    using assms nd ds rq r bt bok cr
    by (cases c) (simp_all add: executeSearchCore_def Let_def bindE_def returnE_def split: if_splits)
  then show ?thesis
    using u frame s3
    by (intro exI [of _ s1] exI [of _ u] exI [of _ limited]) auto
qed

text \<open>
  Claim C3, amended. A standard search (not deep, no initial token) that returns has run
  the fetch loop to its end, with \<open>allPlaces\<close> accumulated and \<open>currentToken\<close> the
  provider's last token, and returns this token: nothing when the provider gave no token
  and fewer than 60 results were accumulated; \<open>google_limit_reached\<close> when it gave no
  token and at least 60 were; \<open>plan_limit_reached\<close> when it gave a token and more
  results were accumulated than the plan's cap, so that the page was cut; the provider's
  token unchanged otherwise, also when exactly as many results as the cap were accumulated.
\<close>

theorem standard_search_nextPageToken:
  assumes "\<not> js_truthy initialPageToken"
      and "executeSearchCore env city keyword userId initialPageToken False jobId s0 = (Inr result, s')"
  shows "\<exists>allPlaces enrichedPlaces currentToken s1.
           standard_loop env (effectiveJobId_of env jobId) (keyword @ '' in '' @ city)
              (resultsPerSearch env (subscriptionTier (user_or_new s0 userId))) 0 [] [] None
              (ensure_user userId s0)
             = (Inr (allPlaces, enrichedPlaces, currentToken), s1)
         \<and> res_nextPageToken result =
             (if \<not> js_truthy currentToken
              then (if length allPlaces < 60 then None else Some ''google_limit_reached'')
              else if resultsPerSearch env (subscriptionTier (user_or_new s0 userId)) < length allPlaces
                   then Some ''plan_limit_reached''
                   else currentToken)
         \<and> res_places result =
             take (resultsPerSearch env (subscriptionTier (user_or_new s0 userId))) enrichedPlaces"
proof -
  let ?cap = "resultsPerSearch env (subscriptionTier (user_or_new s0 userId))"
  from executeSearchCore_standard [OF assms]
  obtain limited nextToken enriched s1 where
      ss: "standard_search env (effectiveJobId_of env jobId) city keyword ?cap (ensure_user userId s0)
             = (Inr (limited, nextToken, enriched), s1)"
      and r: "res_places result = enriched" "res_nextPageToken result = nextToken"
    by blast
  from standard_search_result [OF ss]
  obtain allPlaces enrichedPlaces currentToken where
      l: "standard_loop env (effectiveJobId_of env jobId) (keyword @ '' in '' @ city) ?cap
            0 [] [] None (ensure_user userId s0)
            = (Inr (allPlaces, enrichedPlaces, currentToken), s1)"
      and v: "nextToken = standard_nextToken ?cap allPlaces currentToken"
             "enriched = take ?cap enrichedPlaces"
    by blast
  show ?thesis
    using l r v standard_nextToken_policy [of ?cap allPlaces currentToken]
    by (intro exI [of _ allPlaces] exI [of _ enrichedPlaces] exI [of _ currentToken] exI [of _ s1])
       simp
qed

theorem standard_search_nextPageToken_witness:
  "map_sum id res_nextPageToken (fst (executeSearchCore env10 ''Rome'' ''gym'' ''u1'' None False None app0))
     = Inr (Some ''plan_limit_reached'')
   \<and> map_sum id res_places (fst (executeSearchCore env10 ''Rome'' ''gym'' ''u1'' None False None app0))
     = Inr (replicate 10 gym)"
proof -
  let ?x = "executeSearchCore env10 ''Rome'' ''gym'' ''u1'' None False None app0"
  obtain result s' where x: "?x = (Inr result, s')"
    using full_page_search10 by (cases ?x) auto
  have nt: "\<not> js_truthy None" by (simp add: js_truthy_def)
  have sim: "effectiveJobId_of env10 None = ''job-1''"
      "resultsPerSearch env10 (subscriptionTier (user_or_new app0 ''u1'')) = 10"
      "ensure_user ''u1'' app0 = app0"
    by (simp_all add: effectiveJobId_of_def js_truthy_def env10_fields ensure_user_def app0_fields)
  from standard_search_nextPageToken [OF nt x]
  obtain allPlaces enrichedPlaces currentToken s1 where
      l: "standard_loop env10 ''job-1'' (''gym'' @ '' in '' @ ''Rome'') 10 0 [] [] None app0
            = (Inr (allPlaces, enrichedPlaces, currentToken), s1)"
      and t: "res_nextPageToken result =
             (if \<not> js_truthy currentToken
              then (if length allPlaces < 60 then None else Some ''google_limit_reached'')
              else if 10 < length allPlaces then Some ''plan_limit_reached'' else currentToken)"
      and p: "res_places result = take 10 enrichedPlaces"
    unfolding sim by blast
  have "allPlaces = replicate 20 gym" "enrichedPlaces = replicate 20 gym" "currentToken = Some ''next''"
    using l unfolding full_page_loop10 by auto
  then have "res_nextPageToken result = Some ''plan_limit_reached''"
            "res_places result = replicate 10 gym"
    using t p by (simp_all add: js_truthy_def)
  then show ?thesis
    using x by simp
qed

text \<open>
  Claim C3 as stated fails when the cap is reached exactly: with a plan of 20 results and a
  first provider page of 20 results and a token, the loop stops with the cap reached and
  the search returns the provider's token, not \<open>plan_limit_reached\<close>.
\<close>

theorem standard_search_cap_reached_exactly:
  "fst (standard_loop env0 ''job-1'' ''gym in Rome'' 20 0 [] [] None app0)
     = Inr (replicate 20 gym, replicate 20 gym, Some ''next'')
   \<and> map_sum id res_nextPageToken
        (fst (executeSearchCore env0 ''Rome'' ''gym'' ''u1'' None False None app0))
     = Inr (Some ''next'')
   \<and> claimed_nextToken 20 (replicate 20 gym) (Some ''next'') = Some ''plan_limit_reached''"
  by (simp add: full_page_loop full_page_search claimed_nextToken_def js_truthy_def)

text \<open>
  Claim C1 fails on the provider-token pagination. A user has one credit; two page loads
  with a provider token run at once. This call reads the balance 1 and passes the check;
  while it awaits the gateway the other call's transaction commits and takes the credit;
  this call's transaction then decrements without a condition and leaves the balance at
  -1. A new search under the same interference is refused and leaves the balance at 0.
\<close>

theorem legacy_pagination_overdraws:
  "map_option credits (users app1 ''u1'') = Some 1
   \<and> isl (fst (executeSearchCore env_race ''Rome'' ''gym'' ''u1'' (Some ''tok'') False None app1)) = False
   \<and> map_option credits
        (users (snd (executeSearchCore env_race ''Rome'' ''gym'' ''u1'' (Some ''tok'') False None app1)) ''u1'')
       = Some (- 1)
   \<and> map (\<lambda>t. (ct_amount t, ct_type t))
        (creditTransactions
           (snd (executeSearchCore env_race ''Rome'' ''gym'' ''u1'' (Some ''tok'') False None app1)))
       = [(- 1, ''PAGE_LOAD''), (- 1, ''PAGE_LOAD'')]
   \<and> fst (executeSearchCore env_race ''Rome'' ''gym'' ''u1'' None False None app1)
       = Inl (InsufficientBalanceError 1)
   \<and> map_option credits
        (users (snd (executeSearchCore env_race ''Rome'' ''gym'' ''u1'' None False None app1)) ''u1'')
       = Some 0"
proof -
  have u: "user_or_new app1 ''u1'' = \<lparr>credits = 1, subscriptionTier = FREE\<rparr>"
          "ensure_user ''u1'' app1 = app1"
    by (simp_all add: user_or_new_def ensure_user_def app1_fields)
  have j: "effectiveJobId_of env_race None = ''job-1''"
    by (simp add: effectiveJobId_of_def js_truthy_def race_fields)
  have loop: "standard_loop env_race ''job-1'' q 20 0 [] [] None app1 =
     (Inr ([gym], [gym], None),
      app1\<lparr>placeTable := upsert_place gym (placeTable app1),
           published := published app1 @ [(''job-1'', [gym])]\<rparr>)" for q
    by (subst standard_loop.simps)
       (simp add: MAX_FETCHES_def race_fields last_page_def persistAndPublish_def Let_def
                  bindE_def returnE_def redis_publish_def app1_fields saved_place_gym js_truthy_def)
  let ?legacy = "executeSearchCore env_race ''Rome'' ''gym'' ''u1'' (Some ''tok'') False None app1"
  let ?fresh = "executeSearchCore env_race ''Rome'' ''gym'' ''u1'' None False None app1"
  note legacy_defs = executeSearchCore_def Let_def normalize_samples u j requiredCredits_def
          js_truthy_def is_deep_token_def startsWith_def race_fields last_page_def
          concurrent_page_load_def legacy_transaction_def persistAndPublish_def
          redis_publish_def saved_place_gym upsert_place_def default_options_def
          bindE_def returnE_def app1_fields
  have legacy:
    "fst ?legacy = Inr \<lparr>res_places = [gym], res_nextPageToken = None, res_jobId = ''job-1''\<rparr>"
    "users (snd ?legacy) ''u1'' = Some \<lparr>credits = - 1, subscriptionTier = FREE\<rparr>"
    "creditTransactions (snd ?legacy) =
       [\<lparr>ct_userId = ''u1'', ct_amount = - 1, ct_type = ''PAGE_LOAD'', ct_city = ''rome'',
         ct_keyword = ''gym'', ct_resultCount = None, ct_pageToken = Some ''tok''\<rparr>,
        \<lparr>ct_userId = ''u1'', ct_amount = - 1, ct_type = ''PAGE_LOAD'', ct_city = ''rome'',
         ct_keyword = ''gym'', ct_resultCount = None, ct_pageToken = Some ''tok''\<rparr>]"
    by (simp_all add: legacy_defs)
  note fresh_defs = executeSearchCore_def Let_def normalize_samples u j requiredCredits_def
          js_truthy_def is_deep_token_def isPaidPagination_def standard_search_def loop
          race_fields concurrent_page_load_def legacy_transaction_def billing_transaction_def
          upsert_place_def js_slice_prefix standard_nextToken_policy
          bindE_def returnE_def app1_fields
  have fresh:
    "fst ?fresh = Inl (InsufficientBalanceError 1)"
    "users (snd ?fresh) ''u1'' = Some \<lparr>credits = 0, subscriptionTier = FREE\<rparr>"
    by (simp_all add: fresh_defs)
  show ?thesis
    by (simp add: legacy fresh app1_fields)
qed

text \<open>
  Claim C4 fails on the fallback of a new deep search. With the deep page size configured
  to 10 and no viewport found for the city, the single fallback query returns eleven
  places; all eleven are returned, although the first page is cut to ten for the token
  and the ledger, and the token \<open>deep:10\<close> announces a second page starting at the
  eleventh place, which was already returned. Ten credits are charged.
\<close>

theorem deep_fallback_page_exceeds_size:
  "DEEP_PAGE_SIZE env_deep = 10
   \<and> map_sum id (\<lambda>r. length (res_places r))
        (fst (executeSearchCore env_deep ''Atlantis'' ''gym'' ''u1'' None True None app0)) = Inr 11
   \<and> map_sum id res_nextPageToken
        (fst (executeSearchCore env_deep ''Atlantis'' ''gym'' ''u1'' None True None app0))
       = Inr (Some ''deep:10'')
   \<and> map_option credits (users app0 ''u1'') = Some 20
   \<and> map_option credits
        (users (snd (executeSearchCore env_deep ''Atlantis'' ''gym'' ''u1'' None True None app0)) ''u1'')
       = Some 10
   \<and> map (\<lambda>t. (ct_amount t, ct_type t, ct_resultCount t))
        (creditTransactions
          (snd (executeSearchCore env_deep ''Atlantis'' ''gym'' ''u1'' None True None app0)))
       = [(- 10, ''DEEP_SEARCH'', Some 10)]"
proof -
  let ?x = "executeSearchCore env_deep ''Atlantis'' ''gym'' ''u1'' None True None app0"
  have n: "normalizeInput ''Atlantis'' = ''atlantis''" "normalizeInput ''gym'' = ''gym''"
    by (simp_all add: normalizeInput_def is_space_def toLowerCase_char_def)
  have u: "user_or_new app0 ''u1'' = \<lparr>credits = 20, subscriptionTier = FREE\<rparr>"
          "ensure_user ''u1'' app0 = app0"
    by (simp_all add: user_or_new_def ensure_user_def app0_fields)
  have j: "effectiveJobId_of env_deep None = ''job-1''"
    by (simp add: effectiveJobId_of_def js_truthy_def deep_fields)
  have cap: "maxResultsByCredits env_deep 10 = 110"
    by (simp add: maxResultsByCredits_def deep_fields Let_def)
  have sl: "js_slice (replicate 11 gym) 0 10 = replicate 10 gym"
    by (simp add: js_slice_prefix)
  have sp: "map saved_place (replicate 11 gym) = replicate 11 gym"
    by (simp add: saved_place_gym)
  note defs = executeSearchCore_def Let_def n u j requiredCredits_def remainingCredits_def
      js_truthy_def is_deep_token_def isPaidPagination_def deep_search_def deep_collect_def
      deep_store_def cap sl sp saved_place_gym show_int_10 deep_fields no_viewport_def default_options_def
      persistAndPublish_def redis_publish_def redis_set_ex_def LONG_TERM_TTL_def
      billing_transaction_def cache_result_def
      bindE_def returnE_def app0_fields app0_more_fields
  have "fst ?x = Inr \<lparr>res_places = replicate 11 gym, res_nextPageToken = Some ''deep:10'',
                      res_jobId = ''job-1''\<rparr>"
       "users (snd ?x) ''u1'' = Some \<lparr>credits = 10, subscriptionTier = FREE\<rparr>"
       "creditTransactions (snd ?x) =
          [\<lparr>ct_userId = ''u1'', ct_amount = - 10, ct_type = ''DEEP_SEARCH'', ct_city = ''atlantis'',
            ct_keyword = ''gym'', ct_resultCount = Some 10, ct_pageToken = None\<rparr>]"
    by (simp_all add: defs)
  then show ?thesis
    by (simp add: deep_fields app0_fields)
qed

end
